theory Spec2Isabelle
  imports Main
begin

unbundle bit_operations_syntax

section \<open>Values\<close>

text \<open>
  A JavaScript string is embedded as a \<open>string\<close>: the list of the bytes of its UTF-8
  encoding, which is what \<open>Buffer.from\<close> hands to the comparison of the CSRF tokens. The
  characters the code looks for (\<open>&\<close>, \<open><\<close>, \<open>>\<close>, the quotes, \<open>@\<close>, \<open>.\<close>, \<open>/\<close>)
  are ASCII, one byte each, and never part of a longer UTF-8 sequence. A value that can be
  \<open>null\<close> or \<open>undefined\<close> at run time (a missing form field behind an \<open>as string\<close>
  cast, an absent cookie, an unset environment variable) is a \<open>string option\<close>.
\<close>

text \<open>The test \<open>!v\<close> on such a value: true for null, undefined and the empty string.\<close>

definition isFalsy :: "string option \<Rightarrow> bool" where
  "isFalsy v = (case v of None \<Rightarrow> True | Some s \<Rightarrow> s = [])"

text \<open>\<open>s.startsWith(p)\<close> and the suffix test of a regular expression ending in \<open>$\<close>.\<close>

definition startsWith :: "string \<Rightarrow> string \<Rightarrow> bool" where
  "startsWith s p = (take (length p) s = p)"

definition endsWith :: "string \<Rightarrow> string \<Rightarrow> bool" where
  "endsWith s p = (length p \<le> length s \<and> drop (length s - length p) s = p)"

text \<open>
  \<open>s.toLowerCase()\<close> on the ASCII letters. (JavaScript also maps letters beyond ASCII,
  which are several bytes here and stay as they are; this only reaches the name of a
  rate-limit counter.)
\<close>

definition toLowerCase :: "string \<Rightarrow> string" where
  "toLowerCase s =
     map (\<lambda>c. if 65 \<le> (of_char c :: nat) \<and> (of_char c :: nat) \<le> 90
              then char_of ((of_char c :: nat) + 32) else c) s"

text \<open>The exceptions the embedded code can raise.\<close>

datatype exn = TypeError | RangeError

section \<open>Input sanitizer and validator (src/app/lib/utils/security.ts)\<close>

text \<open>\<open>s.replace(/c/g, r)\<close> for a one-character pattern: every occurrence is replaced.\<close>

definition replace_g :: "char \<Rightarrow> string \<Rightarrow> string \<Rightarrow> string" where
  "replace_g c r s = concat (map (\<lambda>x. if x = c then r else [x]) s)"

text \<open>
  \<^verbatim>\<open>
  export function sanitizeInput(input: string): string {
    if (!input) return '';
    return input
      .replace(/&/g, '&amp;')
      .replace(/</g, '&lt;')
      .replace(/>/g, '&gt;')
      .replace(/"/g, '&quot;')
      .replace(/'/g, '&#039;');
  }
  \<close>
  The five replacements run one after the other, in the order of the source.
\<close>

definition sanitizeInput :: "string option \<Rightarrow> string" where
  "sanitizeInput input =
     (case input of
        None \<Rightarrow> []
      | Some s \<Rightarrow>
          if s = [] then []
          else replace_g (CHR 0x27) ''&#039;''
                (replace_g (CHR 0x22) ''&quot;''
                  (replace_g (CHR ''>'') ''&gt;''
                    (replace_g (CHR ''<'') ''&lt;''
                      (replace_g (CHR ''&'') ''&amp;'' s)))))"

text \<open>
  The class \<open>[^\s@]\<close> of the e-mail pattern, with the ASCII white space of \<open>\s\<close> (tab,
  line feed, vertical tab, form feed, carriage return, space).
\<close>

definition notSpaceOrAt :: "char \<Rightarrow> bool" where
  "notSpaceOrAt c =
     (c \<noteq> CHR ''@'' \<and> c \<noteq> CHR 0x09 \<and> c \<noteq> CHR 0x0A \<and> c \<noteq> CHR 0x0B \<and>
      c \<noteq> CHR 0x0C \<and> c \<noteq> CHR 0x0D \<and> c \<noteq> CHR '' '')"

text \<open>
  \<open>/^[^\s@]+@[^\s@]+\.[^\s@]+$/.test(s)\<close>: a non-empty local part, one \<open>@\<close>, and a
  domain of allowed characters with a dot that is neither its first nor its last character.
\<close>

definition emailRegexTest :: "string \<Rightarrow> bool" where
  "emailRegexTest s =
     (let local = takeWhile (\<lambda>c. c \<noteq> CHR ''@'') s;
          rest = dropWhile (\<lambda>c. c \<noteq> CHR ''@'') s
      in local \<noteq> [] \<and> list_all notSpaceOrAt local \<and>
         (case rest of
            [] \<Rightarrow> False
          | _ # domain \<Rightarrow>
              list_all notSpaceOrAt domain \<and> CHR ''.'' \<in> set (tl (butlast domain))))"

definition validateEmail :: "string option \<Rightarrow> string" where
  "validateEmail email =
     (case email of
        None \<Rightarrow> []
      | Some s \<Rightarrow>
          if s = [] then []
          else if \<not> emailRegexTest s then []
          else sanitizeInput (Some s))"

section \<open>Rate limiter (src/app/lib/utils/security.ts)\<close>

record rateEntry =
  count :: int
  resetTime :: int

text \<open>
  \<open>const rateLimits: Record<string, {count, resetTime}> = {}\<close>: the entries the module has
  stored, by key.
\<close>

type_synonym rateLimits = "string \<rightharpoonup> rateEntry"

text \<open>
  \<open>rateLimits\<close> is a plain object, so \<open>rateLimits[key]\<close> also finds what it inherits from
  \<open>Object.prototype\<close>. For these keys the lookup gives a function (or the prototype
  itself), which is truthy and has no \<open>resetTime\<close>: \<open>undefined < now\<close> is false, nothing
  is stored, \<open>count++\<close> leaves \<open>NaN\<close> on the inherited object, and \<open>NaN <= maxAttempts\<close>
  is false. No caller of this repository builds such a key: theirs start with
  \<open>login_\<close>, \<open>register_\<close>, \<open>create_poll_\<close> or \<open>update_poll_\<close>.
\<close>

definition objectPrototypeKeys :: "string list" where
  "objectPrototypeKeys =
     [''constructor'', ''__defineGetter__'', ''__defineSetter__'', ''hasOwnProperty'',
      ''__lookupGetter__'', ''__lookupSetter__'', ''isPrototypeOf'',
      ''propertyIsEnumerable'', ''toString'', ''valueOf'', ''__proto__'',
      ''toLocaleString'']"

text \<open>
  \<^verbatim>\<open>
  export function checkRateLimit(key: string, maxAttempts = 5, windowMs = 60000): boolean {
    const now = Date.now();
    if (!rateLimits[key] || rateLimits[key].resetTime < now) {
      rateLimits[key] = { count: 0, resetTime: now + windowMs };
    }
    rateLimits[key].count++;
    return rateLimits[key].count <= maxAttempts;
  }
  \<close>
  The clock \<open>Date.now()\<close> and the module's table are arguments; the table comes back
  updated. Numbers are integers (every caller passes integer literals, and the clock
  counts milliseconds).
\<close>

definition checkRateLimit ::
  "string \<Rightarrow> int \<Rightarrow> int \<Rightarrow> int \<Rightarrow> rateLimits \<Rightarrow> bool \<times> rateLimits" where
  "checkRateLimit key maxAttempts windowMs now rl =
     (if key \<in> set objectPrototypeKeys then (False, rl)
      else
        let fresh = \<lparr>count = 0, resetTime = now + windowMs\<rparr>;
            entry = (case rl key of
                       None \<Rightarrow> fresh
                     | Some e \<Rightarrow> if resetTime e < now then fresh else e);
            entry' = entry\<lparr>count := count entry + 1\<rparr>
        in (count entry' \<le> maxAttempts, rl(key \<mapsto> entry')))"

text \<open>
  A test driver: the calls for one key at the given clock readings, in order, with the
  answers they give.
\<close>

fun checkRateLimitAt ::
  "string \<Rightarrow> int \<Rightarrow> int \<Rightarrow> int list \<Rightarrow> rateLimits \<Rightarrow> bool list \<times> rateLimits" where
  "checkRateLimitAt key maxAttempts windowMs [] rl = ([], rl)"
| "checkRateLimitAt key maxAttempts windowMs (t # ts) rl =
     (let (ok, rl1) = checkRateLimit key maxAttempts windowMs t rl;
          (oks, rl2) = checkRateLimitAt key maxAttempts windowMs ts rl1
      in (ok # oks, rl2))"

section \<open>CSRF tokens (src/app/lib/utils/csrf.ts; csrf-actions in src/unnamed/part_000)\<close>

text \<open>
  A cookie as \<open>cookies().set\<close> stores it, and the cookie store of the request, by name.
\<close>

record cookie =
  c_value :: string
  c_httpOnly :: bool
  c_secure :: bool
  c_sameSite :: string
  c_path :: string
  c_maxAge :: nat

type_synonym cookieJar = "string \<rightharpoonup> cookie"

text \<open>
  Node's \<open>crypto.timingSafeEqual(a, b)\<close>: it throws a \<open>RangeError\<close> when the two buffers
  differ in byte length; otherwise it visits every byte pair, accumulating the
  differences (\<open>acc |= a[i] ^ b[i]\<close>), and answers whether none was seen. It never stops
  at the first mismatch. \<open>timingSafeCompare\<close> is that loop and \<open>timingSafeStep\<close> its body;
  the state is the accumulated difference and the number of byte pairs read so far.
\<close>

definition timingSafeStep :: "char \<times> char \<Rightarrow> nat \<times> nat \<Rightarrow> nat \<times> nat" where
  "timingSafeStep pair state =
     (fst state OR ((of_char (fst pair) :: nat) XOR of_char (snd pair)), snd state + 1)"

definition timingSafeCompare :: "string \<Rightarrow> string \<Rightarrow> nat \<times> nat" where
  "timingSafeCompare a b = fold timingSafeStep (zip a b) (0, 0)"

definition timingSafeEqual :: "string \<Rightarrow> string \<Rightarrow> exn + bool" where
  "timingSafeEqual a b =
     (if length a \<noteq> length b then Inl RangeError
      else Inr (fst (timingSafeCompare a b) = 0))"



definition getCsrfToken :: "cookieJar \<Rightarrow> string option" where
  "getCsrfToken jar = map_option c_value (jar ''csrf_token'')"

text \<open>
  \<^verbatim>\<open>
  export function validateCsrfToken(token: string): boolean {
    const storedToken = getCsrfCookie();
    if (!storedToken || !token) { return false; }
    try {
      return crypto.timingSafeEqual(Buffer.from(token), Buffer.from(storedToken));
    } catch (error) { return false; }
  }
  \<close>
  \<open>validateToken\<close> of the csrf-actions module is the same code over \<open>getCsrfToken\<close>.
\<close>



definition validateTokenWith ::
  "(string \<Rightarrow> string \<Rightarrow> exn + bool) \<Rightarrow> cookieJar \<Rightarrow> string option \<Rightarrow> bool" where
  "validateTokenWith crypto_timingSafeEqual jar token =
     (let storedToken = getCsrfToken jar in
      if isFalsy storedToken \<or> isFalsy token then False
      else case (token, storedToken) of
             (Some t, Some s) \<Rightarrow>
               (case crypto_timingSafeEqual t s of Inl e \<Rightarrow> False | Inr b \<Rightarrow> b)
           | _ \<Rightarrow> False)"

definition validateToken :: "cookieJar \<Rightarrow> string option \<Rightarrow> bool" where
  "validateToken jar token = validateTokenWith timingSafeEqual jar token"

section \<open>The world the server actions run in\<close>

text \<open>
  \<open>FormData\<close>: the fields in the order they were appended, a name possibly more than
  once, with string values. \<open>get\<close> gives the first value of a name or \<open>null\<close>, \<open>getAll\<close>
  all of them, \<open>has\<close> whether there is one.
\<close>

type_synonym formData = "(string \<times> string) list"

definition fd_get :: "formData \<Rightarrow> string \<Rightarrow> string option" where
  "fd_get fd name = map_of fd name"

definition fd_getAll :: "formData \<Rightarrow> string \<Rightarrow> string list" where
  "fd_getAll fd name = map snd (filter (\<lambda>field. fst field = name) fd)"

definition fd_has :: "formData \<Rightarrow> string \<Rightarrow> bool" where
  "fd_has fd name = (map_of fd name \<noteq> None)"

text \<open>
  Modelled from the spec: the declarations \<open>LoginFormData\<close> and \<open>RegisterFormData\<close> of
  app/lib/types, which are not among the sources; the spec names their fields (email,
  password, and for registration, name). \<open>login\<close> and \<open>register\<close> take either a
  \<open>FormData\<close> or such an object.
\<close>

record loginFormData =
  lf_email :: string
  lf_password :: string

record registerFormData =
  rf_name :: string
  rf_email :: string
  rf_password :: string

datatype 'a formInput = FromFormData formData | FromObject 'a

text \<open>The rows of the two collections of the data service.\<close>

record poll =
  p_id :: string
  p_user_id :: string
  p_question :: string
  p_options :: "string list"
  p_created_at :: int

record vote =
  v_poll_id :: string
  v_user_id :: string
  v_option_index :: int

text \<open>
  The calls the actions issue to the identity service, to the data service and to the
  framework's cache, kept as a log, so that which calls an action issues, and which it
  does not, can be stated. (\<open>createClient()\<close> only builds the client of the two
  services and is not a call of its own.)
\<close>

datatype call =
    GetUser
  | SignInWithPassword string "string option"
  | SignUp string "string option" string
  | SignOut
  | InsertPoll string string "string list"
  | SelectPollsByUser string
  | SelectPollById string
  | SelectPollOwner string
  | DeletePollById string
  | UpdatePollByIdAndUser string string string "string list"
  | SelectVotes string string
  | InsertVote string string int
  | RevalidatePath string

text \<open>
  The state an action reads and writes. The identity service and the data service are
  outside the repository: the world holds what the code observes of them.
  \<^item> \<open>authUser\<close> and \<open>authError\<close>: the answer of \<open>supabase.auth.getUser()\<close> for the
    request at hand (the caller's user id, and the message of the error), in any
    combination;
  \<^item> \<open>polls\<close> and \<open>votes\<close>: the rows of the two collections;
  \<^item> \<open>faults\<close>: the outcomes of the coming calls to the two services, one per call:
    \<open>Some msg\<close> makes the call fail with that message and change nothing, \<open>None\<close> (and
    an exhausted list) lets it succeed;
  \<^item> \<open>randomHex\<close>, \<open>uuids\<close>: the successive results of
    \<open>crypto.randomBytes(32).toString('hex')\<close> and the ids the data service gives to new rows.
\<close>

record world =
  processEnv :: "string \<rightharpoonup> string"
  clock :: int
  randomHex :: "nat \<Rightarrow> string"
  randomUsed :: nat
  cookieStore :: cookieJar
  rateLimits :: rateLimits
  authUser :: "string option"
  authError :: "string option"
  polls :: "poll list"
  votes :: "vote list"
  uuids :: "nat \<Rightarrow> string"
  uuidsUsed :: nat
  faults :: "string option list"
  calls :: "call list"

text \<open>A call to a service: it is logged, and it takes the next outcome.\<close>

definition respond :: "call \<Rightarrow> world \<Rightarrow> string option \<times> world" where
  "respond c w =
     (case faults w of
        [] \<Rightarrow> (None, w\<lparr>calls := calls w @ [c]\<rparr>)
      | f # fs \<Rightarrow> (f, w\<lparr>faults := fs, calls := calls w @ [c]\<rparr>))"

text \<open>\<open>supabase.auth.getUser()\<close>: \<open>{data: {user}, error}\<close>.\<close>

definition getUser :: "world \<Rightarrow> (string option \<times> string option) \<times> world" where
  "getUser w = ((authUser w, authError w), w\<lparr>calls := calls w @ [GetUser]\<rparr>)"

text \<open>The identity service's answers to sign-in, sign-up and sign-out: an error or none.\<close>

definition signInWithPassword :: "string \<Rightarrow> string option \<Rightarrow> world \<Rightarrow> string option \<times> world" where
  "signInWithPassword email password w = respond (SignInWithPassword email password) w"

definition signUp :: "string \<Rightarrow> string option \<Rightarrow> string \<Rightarrow> world \<Rightarrow> string option \<times> world" where
  "signUp email password name w = respond (SignUp email password name) w"

definition signOut :: "world \<Rightarrow> string option \<times> world" where
  "signOut w = respond SignOut w"

text \<open>
  The message of the error \<open>.single()\<close> answers with when the query does not give exactly
  one row (the data service's text).
\<close>

definition singleRowError :: string where
  "singleRowError = ''JSON object requested, multiple (or no) rows returned''"

text \<open>
  The queries of the actions, each as the chain of the source builds it. A query that
  fails answers \<open>{data: null, error}\<close> and changes nothing.
\<close>

text \<open>\<open>from("polls").insert([{user_id, question, options}])\<close>\<close>

definition insertPoll :: "string \<Rightarrow> string \<Rightarrow> string list \<Rightarrow> world \<Rightarrow> string option \<times> world" where
  "insertPoll uid question options w =
     (let (error, w1) = respond (InsertPoll uid question options) w in
      case error of
        Some msg \<Rightarrow> (Some msg, w1)
      | None \<Rightarrow>
          (None,
           w1\<lparr>polls := polls w1 @
                  [\<lparr>p_id = uuids w1 (uuidsUsed w1), p_user_id = uid, p_question = question,
                    p_options = options, p_created_at = clock w1\<rparr>],
              uuidsUsed := uuidsUsed w1 + 1\<rparr>))"

text \<open>\<open>from("polls").select("*").eq("user_id", uid).order("created_at", {ascending: false})\<close>\<close>

definition selectPollsByUser :: "string \<Rightarrow> world \<Rightarrow> (poll list option \<times> string option) \<times> world" where
  "selectPollsByUser uid w =
     (let (error, w1) = respond (SelectPollsByUser uid) w in
      case error of
        Some msg \<Rightarrow> ((None, Some msg), w1)
      | None \<Rightarrow>
          ((Some (rev (sort_key p_created_at (filter (\<lambda>p. p_user_id p = uid) (polls w1)))), None),
           w1))"

text \<open>\<open>from("polls").select("*").eq("id", id).single()\<close>\<close>

definition selectPollById :: "string \<Rightarrow> world \<Rightarrow> (poll option \<times> string option) \<times> world" where
  "selectPollById pollId w =
     (let (error, w1) = respond (SelectPollById pollId) w in
      case error of
        Some msg \<Rightarrow> ((None, Some msg), w1)
      | None \<Rightarrow>
          (case filter (\<lambda>p. p_id p = pollId) (polls w1) of
             [p] \<Rightarrow> ((Some p, None), w1)
           | _ \<Rightarrow> ((None, Some singleRowError), w1)))"

text \<open>\<open>from("polls").select("user_id").eq("id", id).single()\<close>\<close>

definition selectPollOwner :: "string \<Rightarrow> world \<Rightarrow> (string option \<times> string option) \<times> world" where
  "selectPollOwner pollId w =
     (let (error, w1) = respond (SelectPollOwner pollId) w in
      case error of
        Some msg \<Rightarrow> ((None, Some msg), w1)
      | None \<Rightarrow>
          (case filter (\<lambda>p. p_id p = pollId) (polls w1) of
             [p] \<Rightarrow> ((Some (p_user_id p), None), w1)
           | _ \<Rightarrow> ((None, Some singleRowError), w1)))"

text \<open>\<open>from("polls").delete().eq("id", id)\<close>\<close>

definition deletePollById :: "string \<Rightarrow> world \<Rightarrow> string option \<times> world" where
  "deletePollById pollId w =
     (let (error, w1) = respond (DeletePollById pollId) w in
      case error of
        Some msg \<Rightarrow> (Some msg, w1)
      | None \<Rightarrow> (None, w1\<lparr>polls := filter (\<lambda>p. p_id p \<noteq> pollId) (polls w1)\<rparr>))"

text \<open>\<open>from("polls").update({question, options}).eq("id", pollId).eq("user_id", uid)\<close>\<close>

definition updatePollByIdAndUser ::
  "string \<Rightarrow> string \<Rightarrow> string \<Rightarrow> string list \<Rightarrow> world \<Rightarrow> string option \<times> world" where
  "updatePollByIdAndUser pollId uid question options w =
     (let (error, w1) = respond (UpdatePollByIdAndUser pollId uid question options) w in
      case error of
        Some msg \<Rightarrow> (Some msg, w1)
      | None \<Rightarrow>
          (None,
           w1\<lparr>polls :=
                map (\<lambda>p. if p_id p = pollId \<and> p_user_id p = uid
                         then p\<lparr>p_question := question, p_options := options\<rparr> else p)
                  (polls w1)\<rparr>))"

text \<open>\<open>from("votes").select("*").eq("poll_id", pollId).eq("user_id", uid)\<close>\<close>

definition selectVotes :: "string \<Rightarrow> string \<Rightarrow> world \<Rightarrow> (vote list option \<times> string option) \<times> world" where
  "selectVotes pollId uid w =
     (let (error, w1) = respond (SelectVotes pollId uid) w in
      case error of
        Some msg \<Rightarrow> ((None, Some msg), w1)
      | None \<Rightarrow>
          ((Some (filter (\<lambda>v. v_poll_id v = pollId \<and> v_user_id v = uid) (votes w1)), None), w1))"

text \<open>\<open>from("votes").insert([{poll_id, user_id, option_index}])\<close>\<close>

definition insertVote :: "string \<Rightarrow> string \<Rightarrow> int \<Rightarrow> world \<Rightarrow> string option \<times> world" where
  "insertVote pollId uid optionIndex w =
     (let (error, w1) = respond (InsertVote pollId uid optionIndex) w in
      case error of
        Some msg \<Rightarrow> (Some msg, w1)
      | None \<Rightarrow>
          (None,
           w1\<lparr>votes := votes w1 @
                  [\<lparr>v_poll_id = pollId, v_user_id = uid, v_option_index = optionIndex\<rparr>]\<rparr>))"

text \<open>\<open>revalidatePath(path)\<close>: a call to the framework's cache.\<close>

definition revalidatePath :: "string \<Rightarrow> world \<Rightarrow> world" where
  "revalidatePath path w = w\<lparr>calls := calls w @ [RevalidatePath path]\<rparr>"

text \<open>
  \<open>generateAndSetCsrfToken\<close> of the csrf-actions module: a fresh random token, stored in the
  \<open>csrf_token\<close> cookie (httpOnly, secure in production, sameSite strict, one hour).
\<close>

definition generateAndSetCsrfToken :: "world \<Rightarrow> string \<times> world" where
  "generateAndSetCsrfToken w =
     (let token = randomHex w (randomUsed w) in
      (token,
       w\<lparr>randomUsed := randomUsed w + 1,
         cookieStore := (cookieStore w)(''csrf_token'' \<mapsto>
           \<lparr>c_value = token, c_httpOnly = True,
            c_secure = (processEnv w ''NODE_ENV'' = Some ''production''),
            c_sameSite = ''strict'', c_path = ''/'', c_maxAge = 60 * 60\<rparr>)\<rparr>))"

section \<open>Authentication actions (auth-actions in src/unnamed/part_000)\<close>

text \<open>
  An action answers \<open>{error: string | null}\<close>, here a \<open>string option\<close>, and leaves the
  world changed. Where the code can throw, the answer is a sum: \<open>Inl\<close> the exception,
  with the world as it was when it was thrown.

  \<^verbatim>\<open>
  export async function login(formData: FormData | LoginFormData) {
    const data = formData instanceof FormData
      ? { email: formData.get('email') as string,
          password: formData.get('password') as string }
      : formData;
    // Validate CSRF token if present in FormData
    if (formData instanceof FormData && formData.has('csrf_token')) {
      const token = formData.get('csrf_token') as string;
      const isValidCsrf = await validateToken(token);
      if (!isValidCsrf) {
        return { error: "Invalid or expired form submission. Please try again." };
      }
    }
    const emailKey = `login_${data.email.toLowerCase()}`;
    if (!checkRateLimit(emailKey, 5, 60000)) {
      return { error: "Too many login attempts. Please try again later." };
    }
    const email = validateEmail(data.email);
    if (!email) { return { error: "Invalid email format" }; }
    const supabase = await createClient();
    const { error } = await supabase.auth.signInWithPassword({ email, password: data.password });
    if (error) { return { error: "Invalid email or password" }; }
    await generateAndSetCsrfToken();
    return { error: null };
  }
  \<close>
  \<open>data.email.toLowerCase()\<close> reads a property of \<open>data.email\<close>: when the form has no
  \<open>email\<close> field, \<open>formData.get\<close> gave \<open>null\<close> and the read throws a \<open>TypeError\<close>.
\<close>

definition login :: "loginFormData formInput \<Rightarrow> world \<Rightarrow> (exn + string option) \<times> world" where
  "login formData w =
     (let data = (case formData of
                    FromFormData fd \<Rightarrow> (fd_get fd ''email'', fd_get fd ''password'')
                  | FromObject d \<Rightarrow> (Some (lf_email d), Some (lf_password d)));
          csrfRejected = (case formData of
                            FromFormData fd \<Rightarrow>
                              fd_has fd ''csrf_token'' \<and>
                              \<not> validateToken (cookieStore w) (fd_get fd ''csrf_token'')
                          | FromObject d \<Rightarrow> False)
      in if csrfRejected
         then (Inr (Some ''Invalid or expired form submission. Please try again.''), w)
         else
           (case fst data of
             None \<Rightarrow> (Inl TypeError, w)
           | Some e \<Rightarrow>
               (let (ok, rl) = checkRateLimit (''login_'' @ toLowerCase e) 5 60000
                                 (clock w) (rateLimits w);
                    w1 = w\<lparr>rateLimits := rl\<rparr>
                in if \<not> ok
                   then (Inr (Some ''Too many login attempts. Please try again later.''), w1)
                   else
                     (let email = validateEmail (fst data) in
                      if email = [] then (Inr (Some ''Invalid email format''), w1)
                      else
                        (let (error, w2) = signInWithPassword email (snd data) w1 in
                         (case error of
                            Some msg \<Rightarrow> (Inr (Some ''Invalid email or password''), w2)
                          | None \<Rightarrow> (Inr None, snd (generateAndSetCsrfToken w2))))))))"

text \<open>
  \<^verbatim>\<open>
  export async function register(formData: FormData | RegisterFormData) {
    const data = formData instanceof FormData ? { name: ..., email: ..., password: ... } : formData;
    // Validate CSRF token if present in FormData
    if (formData instanceof FormData && formData.has('csrf_token')) { ... as in login ... }
    if (!checkRateLimit('register_global', 3, 3600000)) {
      return { error: "Registration is temporarily unavailable. Please try again later." };
    }
    const name = sanitizeInput(data.name);
    const email = validateEmail(data.email);
    if (!email) { return { error: "Invalid email format" }; }
    if (!name || name.length < 2) {
      return { error: "Name is required and must be at least 2 characters" };
    }
    const supabase = await createClient();
    const { error } = await supabase.auth.signUp({ email, password: data.password,
                                                    options: { data: { name } } });
    if (error) {
      return { error: "Registration failed. Please try again with a different email." };
    }
    await generateAndSetCsrfToken();
    return { error: null };
  }
  \<close>
  Nothing here reads a property of a field, so nothing throws on a missing one.
  (\<open>name.length\<close> counts UTF-16 units, the embedding bytes: the same on ASCII names.)
\<close>

definition register :: "registerFormData formInput \<Rightarrow> world \<Rightarrow> (exn + string option) \<times> world" where
  "register formData w =
     (let data = (case formData of
                    FromFormData fd \<Rightarrow>
                      (fd_get fd ''name'', fd_get fd ''email'', fd_get fd ''password'')
                  | FromObject d \<Rightarrow> (Some (rf_name d), Some (rf_email d), Some (rf_password d)));
          csrfRejected = (case formData of
                            FromFormData fd \<Rightarrow>
                              fd_has fd ''csrf_token'' \<and>
                              \<not> validateToken (cookieStore w) (fd_get fd ''csrf_token'')
                          | FromObject d \<Rightarrow> False)
      in if csrfRejected
         then (Inr (Some ''Invalid or expired form submission. Please try again.''), w)
         else
           let (ok, rl) = checkRateLimit ''register_global'' 3 3600000 (clock w) (rateLimits w);
               w1 = w\<lparr>rateLimits := rl\<rparr>
           in if \<not> ok
              then (Inr (Some ''Registration is temporarily unavailable. Please try again later.''),
                    w1)
              else
                let name = sanitizeInput (fst data);
                    email = validateEmail (fst (snd data))
                in if email = [] then (Inr (Some ''Invalid email format''), w1)
                   else if name = [] \<or> length name < 2
                   then (Inr (Some ''Name is required and must be at least 2 characters''), w1)
                   else
                     (let (error, w2) = signUp email (snd (snd data)) name w1 in
                      (case error of
                         Some msg \<Rightarrow>
                           (Inr (Some ''Registration failed. Please try again with a different email.''),
                            w2)
                       | None \<Rightarrow> (Inr None, snd (generateAndSetCsrfToken w2)))))"

text \<open>
  \<^verbatim>\<open>
  export async function logout() {
    const supabase = await createClient();
    const { error } = await supabase.auth.signOut();
    if (error) { return { error: error.message }; }
    return { error: null };
  }
  \<close>
\<close>

definition logout :: "world \<Rightarrow> string option \<times> world" where
  "logout w =
     (let (error, w1) = signOut w in
      case error of Some msg \<Rightarrow> (Some msg, w1) | None \<Rightarrow> (None, w1))"

section \<open>Poll and vote actions (poll-actions, from line 58 of src/app/lib/utils/security.ts)\<close>

text \<open>
  \<open>createPoll\<close>: the caller from \<open>getUser\<close>, the rate limit 5 per 60 s under
  \<open>create_poll_<user id>\<close>, the question and the non-empty options sanitized, then the
  insert and \<open>revalidatePath("/polls")\<close>.
\<close>

definition createPoll :: "formData \<Rightarrow> world \<Rightarrow> string option \<times> world" where
  "createPoll formData w =
     (let ((user, userError), w1) = getUser w in
      case userError of
        Some msg \<Rightarrow> (Some msg, w1)
      | None \<Rightarrow>
          (case user of
             None \<Rightarrow> (Some ''You must be logged in to create a poll.'', w1)
           | Some uid \<Rightarrow>
               (let (ok, rl) = checkRateLimit (''create_poll_'' @ uid) 5 60000
                                 (clock w1) (rateLimits w1);
                    w2 = w1\<lparr>rateLimits := rl\<rparr>
                in if \<not> ok then (Some ''Rate limit exceeded. Please try again later.'', w2)
                   else
                     (let question = sanitizeInput (fd_get formData ''question'');
                          unsanitizedOptions = fd_getAll formData ''options'';
                          options = map (\<lambda>option. sanitizeInput (Some option))
                                      (filter (\<lambda>option. option \<noteq> []) unsanitizedOptions)
                      in if question = [] \<or> length options < 2
                         then (Some ''Please provide a question and at least two options.'', w2)
                         else
                           (let (error, w3) = insertPoll uid question options w2 in
                            (case error of
                               Some msg \<Rightarrow> (Some msg, w3)
                             | None \<Rightarrow> (None, revalidatePath ''/polls'' w3)))))))"

text \<open>
  \<open>getUserPolls\<close> answers \<open>{polls, error}\<close> and \<open>getPollById\<close> answers \<open>{poll, error}\<close>.
  \<open>getUserPolls\<close> does not look at the error of \<open>getUser\<close>, only at the user.
\<close>

definition getUserPolls :: "world \<Rightarrow> (poll list \<times> string option) \<times> world" where
  "getUserPolls w =
     (let ((user, userError), w1) = getUser w in
      case user of
        None \<Rightarrow> (([], Some ''Not authenticated''), w1)
      | Some uid \<Rightarrow>
          (let ((data, error), w2) = selectPollsByUser uid w1 in
           (case error of
              Some msg \<Rightarrow> (([], Some msg), w2)
            | None \<Rightarrow> (((case data of None \<Rightarrow> [] | Some rows \<Rightarrow> rows), None), w2))))"

definition getPollById :: "string \<Rightarrow> world \<Rightarrow> (poll option \<times> string option) \<times> world" where
  "getPollById pollId w =
     (let ((data, error), w1) = selectPollById pollId w in
      case error of
        Some msg \<Rightarrow> ((None, Some msg), w1)
      | None \<Rightarrow> ((data, None), w1))"

text \<open>
  \<^verbatim>\<open>
  export async function submitVote(pollId: string, optionIndex: number) {
    const supabase = await createClient();
    const { data: { user } } = await supabase.auth.getUser();
    if (!user) return { error: 'You must be logged in to vote.' };
    const { data: existingVote, error: checkError } = await supabase
      .from("votes").select("*").eq("poll_id", pollId).eq("user_id", user.id);
    if (checkError) return { error: checkError.message };
    if (existingVote && existingVote.length > 0) {
      return { error: "You have already voted on this poll" };
    }
    const { error } = await supabase.from("votes").insert([
      { poll_id: pollId, user_id: user.id, option_index: optionIndex } ]);
    if (error) return { error: error.message };
    return { error: null };
  }
  \<close>
\<close>

definition submitVote :: "string \<Rightarrow> int \<Rightarrow> world \<Rightarrow> string option \<times> world" where
  "submitVote pollId optionIndex w =
     (let ((user, userError), w1) = getUser w in
      case user of
        None \<Rightarrow> (Some ''You must be logged in to vote.'', w1)
      | Some uid \<Rightarrow>
          (let ((existingVote, checkError), w2) = selectVotes pollId uid w1 in
           (case checkError of
              Some msg \<Rightarrow> (Some msg, w2)
            | None \<Rightarrow>
                (if (case existingVote of None \<Rightarrow> False | Some rows \<Rightarrow> length rows > 0)
                 then (Some ''You have already voted on this poll'', w2)
                 else
                   (let (error, w3) = insertVote pollId uid optionIndex w2 in
                    (case error of
                       Some msg \<Rightarrow> (Some msg, w3)
                     | None \<Rightarrow> (None, w3)))))))"

text \<open>
  \<^verbatim>\<open>
  export async function deletePoll(id: string) {
    const supabase = await createClient();
    const { data: { user }, error: userError } = await supabase.auth.getUser();
    if (userError) { return { error: userError.message }; }
    if (!user) { return { error: "You must be logged in to delete a poll." }; }
    // First check if the poll belongs to the user
    const { data: poll, error: pollError } = await supabase
      .from("polls").select("user_id").eq("id", id).single();
    if (pollError) { return { error: pollError.message }; }
    if (!poll) { return { error: "Poll not found" }; }
    if (poll.user_id !== user.id) { return { error: "You can only delete your own polls" }; }
    // Now delete the poll
    const { error } = await supabase.from("polls").delete().eq("id", id);
    if (error) return { error: error.message };
    revalidatePath("/polls");
    return { error: null };
  }
  \<close>
\<close>

definition deletePoll :: "string \<Rightarrow> world \<Rightarrow> string option \<times> world" where
  "deletePoll pollId w =
     (let ((user, userError), w1) = getUser w in
      case userError of
        Some msg \<Rightarrow> (Some msg, w1)
      | None \<Rightarrow>
          (case user of
             None \<Rightarrow> (Some ''You must be logged in to delete a poll.'', w1)
           | Some uid \<Rightarrow>
               (let ((poll, pollError), w2) = selectPollOwner pollId w1 in
                (case pollError of
                   Some msg \<Rightarrow> (Some msg, w2)
                 | None \<Rightarrow>
                     (case poll of
                        None \<Rightarrow> (Some ''Poll not found'', w2)
                      | Some owner \<Rightarrow>
                          (if owner \<noteq> uid
                           then (Some ''You can only delete your own polls'', w2)
                           else
                             (let (error, w3) = deletePollById pollId w2 in
                              (case error of
                                 Some msg \<Rightarrow> (Some msg, w3)
                               | None \<Rightarrow> (None, revalidatePath ''/polls'' w3)))))))))"

text \<open>
  \<^verbatim>\<open>
  export async function updatePoll(pollId: string, formData: FormData) {
    ... getUser, the two checks, as in deletePoll ("... to update a poll.") ...
    if (!checkRateLimit(`update_poll_${user.id}`, 10, 60000)) {
      return { error: "Rate limit exceeded. Please try again later." };
    }
    ... question and options, sanitized and checked as in createPoll ...
    // Only allow updating polls owned by the user
    const { error } = await supabase.from("polls")
      .update({ question, options }).eq("id", pollId).eq("user_id", user.id);
    if (error) { return { error: error.message }; }
    return { error: null };
  }
  \<close>
\<close>

definition updatePoll :: "string \<Rightarrow> formData \<Rightarrow> world \<Rightarrow> string option \<times> world" where
  "updatePoll pollId formData w =
     (let ((user, userError), w1) = getUser w in
      case userError of
        Some msg \<Rightarrow> (Some msg, w1)
      | None \<Rightarrow>
          (case user of
             None \<Rightarrow> (Some ''You must be logged in to update a poll.'', w1)
           | Some uid \<Rightarrow>
               (let (ok, rl) = checkRateLimit (''update_poll_'' @ uid) 10 60000
                                 (clock w1) (rateLimits w1);
                    w2 = w1\<lparr>rateLimits := rl\<rparr>
                in if \<not> ok then (Some ''Rate limit exceeded. Please try again later.'', w2)
                   else
                     (let question = sanitizeInput (fd_get formData ''question'');
                          unsanitizedOptions = fd_getAll formData ''options'';
                          options = map (\<lambda>option. sanitizeInput (Some option))
                                      (filter (\<lambda>option. option \<noteq> []) unsanitizedOptions)
                      in if question = [] \<or> length options < 2
                         then (Some ''Please provide a question and at least two options.'', w2)
                         else
                           (let (error, w3) = updatePollByIdAndUser pollId uid question options w2 in
                            (case error of
                               Some msg \<Rightarrow> (Some msg, w3)
                             | None \<Rightarrow> (None, w3)))))))"

text \<open>
  \<open>submitVote\<close> awaits each of its calls (\<open>getUser\<close>, the select, the insert), and at an
  \<open>await\<close> the server may run a step of another request. The states of a \<open>submitVote\<close>
  request between its calls, and the step from one to the next: \<open>submitVote\<close> above is
  the three steps with nothing in between.
\<close>

datatype submitVoteState =
    BeforeGetUser
  | BeforeSelect string
  | BeforeInsert string
  | Returned "string option"

fun submitVoteStep ::
  "string \<Rightarrow> int \<Rightarrow> submitVoteState \<Rightarrow> world \<Rightarrow> submitVoteState \<times> world" where
  "submitVoteStep pollId optionIndex BeforeGetUser w =
     (let ((user, userError), w1) = getUser w in
      case user of
        None \<Rightarrow> (Returned (Some ''You must be logged in to vote.''), w1)
      | Some uid \<Rightarrow> (BeforeSelect uid, w1))"
| "submitVoteStep pollId optionIndex (BeforeSelect uid) w =
     (let ((existingVote, checkError), w2) = selectVotes pollId uid w in
      case checkError of
        Some msg \<Rightarrow> (Returned (Some msg), w2)
      | None \<Rightarrow>
          (if (case existingVote of None \<Rightarrow> False | Some rows \<Rightarrow> length rows > 0)
           then (Returned (Some ''You have already voted on this poll''), w2)
           else (BeforeInsert uid, w2)))"
| "submitVoteStep pollId optionIndex (BeforeInsert uid) w =
     (let (error, w3) = insertVote pollId uid optionIndex w in
      case error of
        Some msg \<Rightarrow> (Returned (Some msg), w3)
      | None \<Rightarrow> (Returned None, w3))"
| "submitVoteStep pollId optionIndex (Returned result) w = (Returned result, w)"

text \<open>
  Requests in flight, and a schedule: the request to take its next step, time after
  time. (A number that names no request is skipped.)
\<close>

record voteRequest =
  vr_pollId :: string
  vr_optionIndex :: int
  vr_state :: submitVoteState

definition stepRequest :: "voteRequest \<Rightarrow> world \<Rightarrow> voteRequest \<times> world" where
  "stepRequest r w =
     (let (state, w1) = submitVoteStep (vr_pollId r) (vr_optionIndex r) (vr_state r) w
      in (r\<lparr>vr_state := state\<rparr>, w1))"

fun runSchedule :: "nat list \<Rightarrow> voteRequest list \<Rightarrow> world \<Rightarrow> voteRequest list \<times> world" where
  "runSchedule [] rs w = (rs, w)"
| "runSchedule (i # schedule) rs w =
     (if i < length rs
      then (let (r, w1) = stepRequest (rs ! i) w in runSchedule schedule (rs[i := r]) w1)
      else runSchedule schedule rs w)"

text \<open>At most one vote for each pair of a poll and a user.\<close>

definition oneVotePerUser :: "world \<Rightarrow> bool" where
  "oneVotePerUser w = distinct (map (\<lambda>v. (v_poll_id v, v_user_id v)) (votes w))"

text \<open>The data service answers the next \<open>n\<close> calls: none of their outcomes is a failure.\<close>

definition answers :: "nat \<Rightarrow> world \<Rightarrow> bool" where
  "answers n w = list_all (\<lambda>f. f = None) (take n (faults w))"

section \<open>Session gate (src/middleware.ts, src/lib/supabase/middleware.ts)\<close>

text \<open>
  Of a request the gate reads the path and the query of \<open>nextUrl\<close> and the cookies; it
  answers \<open>NextResponse.next({request})\<close>, with the cookies it sets, or
  \<open>NextResponse.redirect(url)\<close>.
\<close>

record url =
  pathname :: string
  searchParams :: "(string \<times> string) list"

record request =
  nextUrl :: url
  requestCookies :: "string \<rightharpoonup> string"

record responseCookie =
  rc_name :: string
  rc_value :: string
  rc_secure :: bool
  rc_sameSite :: string
  rc_httpOnly :: bool

datatype response =
    NextResponse_next request "responseCookie list"
  | NextResponse_redirect url

text \<open>
  What the identity service answers to \<open>supabase.auth.getSession()\<close>: the session, if
  there is one, and the refreshed cookies it hands to \<open>setAll\<close>.
\<close>

record sessionAnswer =
  session :: "string option"
  cookiesToSet :: "(string \<times> string) list"

text \<open>
  \<open>url.searchParams.set(name, v)\<close>: the first parameter of that name takes the value and
  the others of that name go; without one, the parameter is appended.
\<close>

fun searchParams_replace :: "string \<Rightarrow> string \<Rightarrow> (string \<times> string) list \<Rightarrow> (string \<times> string) list" where
  "searchParams_replace name v [] = []"
| "searchParams_replace name v (p # ps) =
     (if fst p = name then (name, v) # filter (\<lambda>q. fst q \<noteq> name) ps
      else p # searchParams_replace name v ps)"

definition searchParams_set :: "string \<Rightarrow> string \<Rightarrow> (string \<times> string) list \<Rightarrow> (string \<times> string) list" where
  "searchParams_set name v ps =
     (if map_of ps name \<noteq> None then searchParams_replace name v ps else ps @ [(name, v)])"

text \<open>
  \<^verbatim>\<open>
  export async function updateSession(request: NextRequest) {
    let supabaseResponse = NextResponse.next({ request })
    const supabaseUrl = process.env.NEXT_PUBLIC_SUPABASE_URL
    const supabaseKey = process.env.NEXT_PUBLIC_SUPABASE_ANON_KEY
    if (!supabaseUrl || !supabaseKey) {
      console.error('Supabase environment variables are missing')
      return supabaseResponse
    }
    const supabase = createServerClient(supabaseUrl, supabaseKey, { cookies: {
        getAll() { return request.cookies.getAll() },
        setAll(cookiesToSet) {
          cookiesToSet.forEach(({ name, value, options }) => request.cookies.set(name, value))
          supabaseResponse = NextResponse.next({ request })
          cookiesToSet.forEach(({ name, value, options }) =>
            supabaseResponse.cookies.set(name, value, { ...options,
              secure: process.env.NODE_ENV === 'production', sameSite: 'lax', httpOnly: true }))
        } } })
    const { data: { session } } = await supabase.auth.getSession()
    if (!session &&
        !request.nextUrl.pathname.startsWith('/login') &&
        !request.nextUrl.pathname.startsWith('/register') &&
        !request.nextUrl.pathname.startsWith('/auth') &&
        request.nextUrl.pathname !== '/') {
      const url = request.nextUrl.clone()
      url.pathname = '/login'
      url.searchParams.set('redirectTo', request.nextUrl.pathname)
      return NextResponse.redirect(url)
    }
    return supabaseResponse
  }
  \<close>
  The environment is \<open>process.env\<close>. The other options of a refreshed cookie
  (\<open>...options\<close>) pass through unread and are left out.
\<close>

definition updateSession :: "(string \<rightharpoonup> string) \<Rightarrow> sessionAnswer \<Rightarrow> request \<Rightarrow> response" where
  "updateSession env answer request =
     (let supabaseUrl = env ''NEXT_PUBLIC_SUPABASE_URL'';
          supabaseKey = env ''NEXT_PUBLIC_SUPABASE_ANON_KEY''
      in if isFalsy supabaseUrl \<or> isFalsy supabaseKey then NextResponse_next request []
         else
           let request1 = request\<lparr>requestCookies :=
                            fold (\<lambda>c jar. jar(fst c \<mapsto> snd c)) (cookiesToSet answer)
                              (requestCookies request)\<rparr>;
               supabaseResponse =
                 NextResponse_next request1
                   (map (\<lambda>c. \<lparr>rc_name = fst c, rc_value = snd c,
                               rc_secure = (env ''NODE_ENV'' = Some ''production''),
                               rc_sameSite = ''lax'', rc_httpOnly = True\<rparr>)
                      (cookiesToSet answer));
               path = pathname (nextUrl request1)
           in if session answer = None \<and>
                 \<not> startsWith path ''/login'' \<and>
                 \<not> startsWith path ''/register'' \<and>
                 \<not> startsWith path ''/auth'' \<and>
                 path \<noteq> ''/''
              then NextResponse_redirect
                     ((nextUrl request1)
                        \<lparr>pathname := ''/login'',
                         searchParams := searchParams_set ''redirectTo'' path
                                           (searchParams (nextUrl request1))\<rparr>)
              else supabaseResponse)"

text \<open>\<open>export async function middleware(request) { return await updateSession(request) }\<close>\<close>

definition middleware :: "(string \<rightharpoonup> string) \<Rightarrow> sessionAnswer \<Rightarrow> request \<Rightarrow> response" where
  "middleware env answer request = updateSession env answer request"

text \<open>
  \<^verbatim>\<open>
  export const config = { matcher: [
    '/((?!_next/static|_next/image|favicon.ico|login|register|auth|api/public|.*\\.(?:svg|png|jpg|jpeg|gif|webp)$).*)',
  ] }
  \<close>
  The framework runs the middleware on the paths the pattern matches, from the first
  character to the last: a \<open>/\<close>, then a rest at whose start none of the alternatives of
  the negative lookahead matches, and which \<open>.*\<close> matches to the end. A \<open>.\<close> of the
  pattern matches any character but a line terminator.
\<close>

definition lineTerminator :: "char \<Rightarrow> bool" where
  "lineTerminator c = (c = CHR 0x0A \<or> c = CHR 0x0D)"

definition matcherLookahead :: "string \<Rightarrow> bool" where
  "matcherLookahead rest =
     (startsWith rest ''_next/static'' \<or>
      startsWith rest ''_next/image'' \<or>
      (startsWith rest ''favicon'' \<and> startsWith (drop 8 rest) ''ico'' \<and>
       list_all (\<lambda>c. \<not> lineTerminator c) (take 1 (drop 7 rest))) \<or>
      startsWith rest ''login'' \<or>
      startsWith rest ''register'' \<or>
      startsWith rest ''auth'' \<or>
      startsWith rest ''api/public'' \<or>
      (list_all (\<lambda>c. \<not> lineTerminator c) rest \<and>
       list_ex (\<lambda>ext. endsWith rest (''.'' @ ext))
         [''svg'', ''png'', ''jpg'', ''jpeg'', ''gif'', ''webp'']))"

definition config_matcher :: "string \<Rightarrow> bool" where
  "config_matcher path =
     (case path of
        [] \<Rightarrow> False
      | c # rest \<Rightarrow>
          c = CHR ''/'' \<and> \<not> matcherLookahead rest \<and> list_all (\<lambda>c. \<not> lineTerminator c) rest)"

text \<open>The gate: the middleware where the matcher applies, the request passed on elsewhere.\<close>

definition sessionGate :: "(string \<rightharpoonup> string) \<Rightarrow> sessionAnswer \<Rightarrow> request \<Rightarrow> response" where
  "sessionGate env answer request =
     (if config_matcher (pathname (nextUrl request)) then middleware env answer request
      else NextResponse_next request [])"

section \<open>Example inputs\<close>

text \<open>
  A small world for evaluating the definitions: Alice is the caller; Bob owns the one
  poll, \<open>p1\<close>, with two options; Alice has voted on it; the CSRF cookie holds \<open>ab12\<close>;
  the services answer every call.
\<close>

definition jar0 :: cookieJar where
  "jar0 = [''csrf_token'' \<mapsto>
             \<lparr>c_value = ''ab12'', c_httpOnly = True, c_secure = False,
              c_sameSite = ''strict'', c_path = ''/'', c_maxAge = 3600\<rparr>]"

definition poll0 :: poll where
  "poll0 = \<lparr>p_id = ''p1'', p_user_id = ''bob'', p_question = ''Tea or coffee?'',
            p_options = [''tea'', ''coffee''], p_created_at = 500\<rparr>"

definition vote0 :: vote where
  "vote0 = \<lparr>v_poll_id = ''p1'', v_user_id = ''alice'', v_option_index = 0\<rparr>"

definition world0 :: world where
  "world0 = \<lparr>processEnv = Map.empty, clock = 1000, randomHex = (\<lambda>n. ''5f2c''),
             randomUsed = 0, cookieStore = jar0, rateLimits = Map.empty,
             authUser = Some ''alice'', authError = None, polls = [poll0], votes = [vote0],
             uuids = (\<lambda>n. ''p2''), uuidsUsed = 0, faults = [], calls = []\<rparr>"



definition pollForm0 :: formData where
  "pollForm0 = [(''question'', ''Tea?''), (''options'', ''yes''), (''options'', ''no'')]"

text \<open>
  An anonymous request for \<open>/polls/123\<close>, an environment with both variables of the
  identity service set, and one with none.
\<close>

definition request0 :: request where
  "request0 = \<lparr>nextUrl = \<lparr>pathname = ''/polls/123'', searchParams = []\<rparr>,
               requestCookies = Map.empty\<rparr>"

definition answer0 :: sessionAnswer where
  "answer0 = \<lparr>session = None, cookiesToSet = []\<rparr>"

definition env0 :: "string \<rightharpoonup> string" where
  "env0 = [''NEXT_PUBLIC_SUPABASE_URL'' \<mapsto> ''https://polly.supabase.co'',
           ''NEXT_PUBLIC_SUPABASE_ANON_KEY'' \<mapsto> ''anon-key'']"

definition envUnset :: "string \<rightharpoonup> string" where
  "envUnset = Map.empty"

section \<open>Properties\<close>

subsection \<open>Sanitizer\<close>

lemma replace_g_absent: "c \<notin> set s \<Longrightarrow> replace_g c r s = s"
  by (induction s) (auto simp: replace_g_def)

lemma length_replace_g_ge: "r \<noteq> [] \<Longrightarrow> length s \<le> length (replace_g c r s)"
proof (induction s)
  case Nil
  then show ?case by (simp add: replace_g_def)
next
  case (Cons x s)
  have "1 \<le> length r" using Cons.prems by (cases r) auto
  with Cons show ?case by (auto simp: replace_g_def)
qed

lemma length_replace_g_gt:
  "c \<in> set s \<Longrightarrow> 1 < length r \<Longrightarrow> length s < length (replace_g c r s)"
proof (induction s)
  case Nil
  then show ?case by simp
next
  case (Cons x s)
  have ne: "r \<noteq> []" using Cons.prems by auto
  have ge: "length s \<le> length (replace_g c r s)" by (rule length_replace_g_ge [OF ne])
  have step: "replace_g c r (x # s) = (if x = c then r else [x]) @ replace_g c r s"
    by (simp add: replace_g_def)
  show ?case
  proof (cases "x = c")
    case True
    with ge Cons.prems step show ?thesis by simp
  next
    case False
    with Cons have "length s < length (replace_g c r s)" by simp
    with False step show ?thesis by simp
  qed
qed

lemma in_replace_g: "x \<in> set s \<Longrightarrow> x \<noteq> c \<or> x \<in> set r \<Longrightarrow> x \<in> set (replace_g c r s)"
  by (induction s) (auto simp: replace_g_def)

lemma sanitizeInput_keeps_amp:
  assumes "CHR ''&'' \<in> set x"
  shows "CHR ''&'' \<in> set (sanitizeInput (Some x))"
proof -
  let ?a = "replace_g (CHR ''&'') ''&amp;'' x"
  let ?b = "replace_g (CHR ''<'') ''&lt;'' ?a"
  let ?c = "replace_g (CHR ''>'') ''&gt;'' ?b"
  let ?d = "replace_g (CHR 0x22) ''&quot;'' ?c"
  let ?e = "replace_g (CHR 0x27) ''&#039;'' ?d"
  have ne: "x \<noteq> []" using assms by auto
  have 1: "CHR ''&'' \<in> set ?a" using assms by (rule in_replace_g) simp
  have 2: "CHR ''&'' \<in> set ?b" using 1 by (rule in_replace_g) simp
  have 3: "CHR ''&'' \<in> set ?c" using 2 by (rule in_replace_g) simp
  have 4: "CHR ''&'' \<in> set ?d" using 3 by (rule in_replace_g) simp
  have 5: "CHR ''&'' \<in> set ?e" using 4 by (rule in_replace_g) simp
  show ?thesis using ne 5 by (simp add: sanitizeInput_def)
qed

lemma sanitizeInput_longer:
  assumes "CHR ''&'' \<in> set x"
  shows "length x < length (sanitizeInput (Some x))"
proof -
  have ne: "x \<noteq> []" using assms by auto
  let ?a = "replace_g (CHR ''&'') ''&amp;'' x"
  let ?b = "replace_g (CHR ''<'') ''&lt;'' ?a"
  let ?c = "replace_g (CHR ''>'') ''&gt;'' ?b"
  let ?d = "replace_g (CHR 0x22) ''&quot;'' ?c"
  let ?e = "replace_g (CHR 0x27) ''&#039;'' ?d"
  have "length x < length ?a" using assms by (rule length_replace_g_gt) simp
  also have "length ?a \<le> length ?b" by (rule length_replace_g_ge) simp
  also have "length ?b \<le> length ?c" by (rule length_replace_g_ge) simp
  also have "length ?c \<le> length ?d" by (rule length_replace_g_ge) simp
  also have "length ?d \<le> length ?e" by (rule length_replace_g_ge) simp
  finally show ?thesis using ne by (simp add: sanitizeInput_def)
qed

lemma sanitizeInput_safe:
  assumes "CHR ''&'' \<notin> set x" "CHR ''<'' \<notin> set x" "CHR ''>'' \<notin> set x"
    "CHR 0x22 \<notin> set x" "CHR 0x27 \<notin> set x"
  shows "sanitizeInput (Some x) = x"
  using assms by (simp add: sanitizeInput_def replace_g_absent)

lemma not_in_replace_g_self: "c \<notin> set r \<Longrightarrow> c \<notin> set (replace_g c r s)"
  by (induction s) (auto simp: replace_g_def)

lemma not_in_replace_g_other:
  "x \<notin> set s \<Longrightarrow> x \<notin> set r \<Longrightarrow> x \<notin> set (replace_g c r s)"
  by (induction s) (auto simp: replace_g_def)

text \<open>What comes out of the sanitizer holds none of \<open>< > " '\<close>.\<close>

lemma sanitizeInput_output:
  "CHR ''<'' \<notin> set (sanitizeInput (Some x)) \<and> CHR ''>'' \<notin> set (sanitizeInput (Some x)) \<and>
   CHR 0x22 \<notin> set (sanitizeInput (Some x)) \<and> CHR 0x27 \<notin> set (sanitizeInput (Some x))"
proof (cases "x = []")
  case True
  then show ?thesis by (simp add: sanitizeInput_def)
next
  case False
  let ?a = "replace_g (CHR ''&'') ''&amp;'' x"
  let ?b = "replace_g (CHR ''<'') ''&lt;'' ?a"
  let ?c = "replace_g (CHR ''>'') ''&gt;'' ?b"
  let ?d = "replace_g (CHR 0x22) ''&quot;'' ?c"
  let ?e = "replace_g (CHR 0x27) ''&#039;'' ?d"
  have lt_b: "CHR ''<'' \<notin> set ?b" by (rule not_in_replace_g_self) simp
  have lt_c: "CHR ''<'' \<notin> set ?c" using lt_b by (rule not_in_replace_g_other) simp
  have lt_d: "CHR ''<'' \<notin> set ?d" using lt_c by (rule not_in_replace_g_other) simp
  have lt_e: "CHR ''<'' \<notin> set ?e" using lt_d by (rule not_in_replace_g_other) simp
  have gt_c: "CHR ''>'' \<notin> set ?c" by (rule not_in_replace_g_self) simp
  have gt_d: "CHR ''>'' \<notin> set ?d" using gt_c by (rule not_in_replace_g_other) simp
  have gt_e: "CHR ''>'' \<notin> set ?e" using gt_d by (rule not_in_replace_g_other) simp
  have dq_d: "CHR 0x22 \<notin> set ?d" by (rule not_in_replace_g_self) simp
  have dq_e: "CHR 0x22 \<notin> set ?e" using dq_d by (rule not_in_replace_g_other) simp
  have sq_e: "CHR 0x27 \<notin> set ?e" by (rule not_in_replace_g_self) simp
  from False lt_e gt_e dq_e sq_e show ?thesis by (simp add: sanitizeInput_def)
qed

text \<open>
  A second pass escapes every \<open>&\<close> of the first pass's output again, and changes nothing
  else.
\<close>

lemma sanitizeInput_twice:
  "sanitizeInput (Some (sanitizeInput (Some x))) =
     replace_g (CHR ''&'') ''&amp;'' (sanitizeInput (Some x))"
proof (cases "sanitizeInput (Some x) = []")
  case True
  then show ?thesis by (simp add: sanitizeInput_def replace_g_def)
next
  case False
  let ?y = "sanitizeInput (Some x)"
  let ?a = "replace_g (CHR ''&'') ''&amp;'' ?y"
  from sanitizeInput_output [of x]
  have y: "CHR ''<'' \<notin> set ?y" "CHR ''>'' \<notin> set ?y" "CHR 0x22 \<notin> set ?y" "CHR 0x27 \<notin> set ?y"
    by simp_all
  have a: "CHR ''<'' \<notin> set ?a" "CHR ''>'' \<notin> set ?a" "CHR 0x22 \<notin> set ?a" "CHR 0x27 \<notin> set ?a"
    using y by (simp_all add: not_in_replace_g_other)
  have "sanitizeInput (Some ?y) =
          replace_g (CHR 0x27) ''&#039;''
            (replace_g (CHR 0x22) ''&quot;''
              (replace_g (CHR ''>'') ''&gt;''
                (replace_g (CHR ''<'') ''&lt;'' ?a)))"
    using False by (simp add: sanitizeInput_def)
  also have "\<dots> = ?a"
    using a by (simp add: replace_g_absent)
  finally show ?thesis .
qed

text \<open>
  Claim C9. \<open>sanitizeInput("<b>")\<close> is \<open>"&lt;b&gt;"\<close>; a string holding none of the
  characters \<open>& < > " '\<close> comes back unchanged, so sanitizing it twice is sanitizing it
  once; and sanitizing twice escapes twice: the second pass replaces every \<open>&\<close> that
  the first pass left or wrote by \<open>&amp;\<close> and changes nothing else, and for every
  string holding an \<open>&\<close> the first pass leaves one, so the second result is longer and
  differs from the first.
\<close>

theorem sanitizeInput_escaping:
  "sanitizeInput (Some ''<b>'') = ''&lt;b&gt;'' \<and>
   (\<forall>x. CHR ''&'' \<notin> set x \<and> CHR ''<'' \<notin> set x \<and> CHR ''>'' \<notin> set x \<and>
        CHR 0x22 \<notin> set x \<and> CHR 0x27 \<notin> set x \<longrightarrow>
        sanitizeInput (Some x) = x \<and>
        sanitizeInput (Some (sanitizeInput (Some x))) = sanitizeInput (Some x)) \<and>
   (\<forall>x. sanitizeInput (Some (sanitizeInput (Some x))) =
          replace_g (CHR ''&'') ''&amp;'' (sanitizeInput (Some x))) \<and>
   (\<forall>x. CHR ''&'' \<in> set x \<longrightarrow>
        CHR ''&'' \<in> set (sanitizeInput (Some x)) \<and>
        length (sanitizeInput (Some x)) < length (sanitizeInput (Some (sanitizeInput (Some x)))) \<and>
        sanitizeInput (Some (sanitizeInput (Some x))) \<noteq> sanitizeInput (Some x))"
proof (intro conjI allI impI)
  show "sanitizeInput (Some ''<b>'') = ''&lt;b&gt;''"
    by (simp add: sanitizeInput_def replace_g_def)
next
  fix x :: string
  assume safe: "CHR ''&'' \<notin> set x \<and> CHR ''<'' \<notin> set x \<and> CHR ''>'' \<notin> set x \<and>
        CHR 0x22 \<notin> set x \<and> CHR 0x27 \<notin> set x"
  then show same: "sanitizeInput (Some x) = x" by (simp add: sanitizeInput_safe)
  then show "sanitizeInput (Some (sanitizeInput (Some x))) = sanitizeInput (Some x)" by simp
next
  fix x :: string
  show "sanitizeInput (Some (sanitizeInput (Some x))) =
          replace_g (CHR ''&'') ''&amp;'' (sanitizeInput (Some x))"
    by (rule sanitizeInput_twice)
next
  fix x :: string
  assume amp: "CHR ''&'' \<in> set x"
  show kept: "CHR ''&'' \<in> set (sanitizeInput (Some x))"
    using amp by (rule sanitizeInput_keeps_amp)
  then show longer:
    "length (sanitizeInput (Some x)) < length (sanitizeInput (Some (sanitizeInput (Some x))))"
    by (rule sanitizeInput_longer)
  then show "sanitizeInput (Some (sanitizeInput (Some x))) \<noteq> sanitizeInput (Some x)" by auto
qed

theorem sanitizeInput_escaping_witness:
  "sanitizeInput (Some ''poll 1'') = ''poll 1'' \<and>
   sanitizeInput (Some (sanitizeInput (Some ''poll 1''))) = sanitizeInput (Some ''poll 1'') \<and>
   sanitizeInput (Some ''a&b&c'') = ''a&amp;b&amp;c'' \<and>
   sanitizeInput (Some (sanitizeInput (Some ''a&b&c''))) = ''a&amp;amp;b&amp;amp;c'' \<and>
   sanitizeInput (Some (sanitizeInput (Some ''a&b&c''))) \<noteq> sanitizeInput (Some ''a&b&c'')"
proof -
  have safe: "CHR ''&'' \<notin> set ''poll 1'' \<and> CHR ''<'' \<notin> set ''poll 1'' \<and>
      CHR ''>'' \<notin> set ''poll 1'' \<and> CHR 0x22 \<notin> set ''poll 1'' \<and> CHR 0x27 \<notin> set ''poll 1''"
    by simp
  have amp: "CHR ''&'' \<in> set ''a&b&c''" by simp
  from sanitizeInput_escaping have
    a: "sanitizeInput (Some ''poll 1'') = ''poll 1'' \<and>
        sanitizeInput (Some (sanitizeInput (Some ''poll 1''))) = sanitizeInput (Some ''poll 1'')"
    and b: "sanitizeInput (Some (sanitizeInput (Some ''a&b&c''))) \<noteq>
            sanitizeInput (Some ''a&b&c'')"
    and twice: "sanitizeInput (Some (sanitizeInput (Some ''a&b&c''))) =
            replace_g (CHR ''&'') ''&amp;'' (sanitizeInput (Some ''a&b&c''))"
    using safe amp by blast+
  have c: "sanitizeInput (Some ''a&b&c'') = ''a&amp;b&amp;c''"
    by (simp add: sanitizeInput_def replace_g_def)
  have d: "sanitizeInput (Some (sanitizeInput (Some ''a&b&c''))) = ''a&amp;amp;b&amp;amp;c''"
    using twice c by (simp add: replace_g_def)
  show ?thesis using a b c d by simp
qed

subsection \<open>Rate limiter\<close>

lemma checkRateLimit_reset:
  assumes "key \<notin> set objectPrototypeKeys"
    and "rl key = None \<or> (\<exists>e. rl key = Some e \<and> resetTime e < now)"
  shows "checkRateLimit key maxAttempts windowMs now rl =
           (1 \<le> maxAttempts, rl(key \<mapsto> \<lparr>count = 1, resetTime = now + windowMs\<rparr>))"
  using assms by (auto simp: checkRateLimit_def Let_def)

lemma checkRateLimit_keep:
  assumes "key \<notin> set objectPrototypeKeys"
    and "rl key = Some e" and "now \<le> resetTime e"
  shows "checkRateLimit key maxAttempts windowMs now rl =
           (count e + 1 \<le> maxAttempts, rl(key \<mapsto> e\<lparr>count := count e + 1\<rparr>))"
  using assms by (auto simp: checkRateLimit_def Let_def)

lemma checkRateLimit_scenario:
  assumes k: "key \<notin> set objectPrototypeKeys" and first: "rl key = None"
    and w: "t2 \<le> t1 + 60000" "t3 \<le> t1 + 60000" "t4 \<le> t1 + 60000" "t5 \<le> t1 + 60000"
           "t6 \<le> t1 + 60000"
    and late: "t1 + 60000 < t7"
  shows "fst (checkRateLimitAt key 5 60000 [t1, t2, t3, t4, t5, t6, t7] rl) =
           [True, True, True, True, True, False, True]"
  using assms by (simp add: checkRateLimit_def Let_def)

text \<open>
  A key that names a property inherited from \<open>Object.prototype\<close> is refused on every
  call, the first included, and nothing is stored for it.
\<close>

lemma checkRateLimit_inherited_key:
  "key \<in> set objectPrototypeKeys \<Longrightarrow>
   checkRateLimit key maxAttempts windowMs now rl = (False, rl)"
  by (simp add: checkRateLimit_def)

lemma checkRateLimit_constructor:
  "checkRateLimit ''constructor'' 5 60000 1000 Map.empty = (False, Map.empty)"
  by (simp add: checkRateLimit_def objectPrototypeKeys_def)

text \<open>
  Claim C2, as the code has it. For every key that names no property inherited from
  \<open>Object.prototype\<close>, every \<open>maxAttempts\<close> and every \<open>windowMs\<close>: on the first call for
  the key, or when the clock is past the stored window end (\<open>resetTime < now\<close>), the
  entry becomes \<open>{count: 0, resetTime: now + windowMs}\<close> before it is counted; otherwise,
  the window end included (\<open>now \<le> resetTime\<close>), the entry is kept; the count is
  incremented before it is compared, and the answer is \<open>count \<le> maxAttempts\<close> for the
  incremented count. With \<open>maxAttempts = 5\<close> and \<open>windowMs = 60000\<close>, calls 1 to 5 in
  the window of the first are admitted, call 6 is refused, and a call after the window
  end has passed is admitted again.
\<close>

theorem checkRateLimit_fixed_window:
  assumes "key \<notin> set objectPrototypeKeys"
  shows
    "(rl key = None \<or> (\<exists>e. rl key = Some e \<and> resetTime e < now) \<longrightarrow>
        checkRateLimit key maxAttempts windowMs now rl =
          (1 \<le> maxAttempts, rl(key \<mapsto> \<lparr>count = 1, resetTime = now + windowMs\<rparr>))) \<and>
     (\<forall>e. rl key = Some e \<and> now \<le> resetTime e \<longrightarrow>
        checkRateLimit key maxAttempts windowMs now rl =
          (count e + 1 \<le> maxAttempts, rl(key \<mapsto> e\<lparr>count := count e + 1\<rparr>))) \<and>
     (\<forall>t1 t2 t3 t4 t5 t6 t7.
        rl key = None \<and> t2 \<le> t1 + 60000 \<and> t3 \<le> t1 + 60000 \<and> t4 \<le> t1 + 60000 \<and>
        t5 \<le> t1 + 60000 \<and> t6 \<le> t1 + 60000 \<and> t1 + 60000 < t7 \<longrightarrow>
        fst (checkRateLimitAt key 5 60000 [t1, t2, t3, t4, t5, t6, t7] rl) =
          [True, True, True, True, True, False, True])"
proof (intro conjI allI impI)
  assume "rl key = None \<or> (\<exists>e. rl key = Some e \<and> resetTime e < now)"
  with assms show "checkRateLimit key maxAttempts windowMs now rl =
          (1 \<le> maxAttempts, rl(key \<mapsto> \<lparr>count = 1, resetTime = now + windowMs\<rparr>))"
    by (rule checkRateLimit_reset)
next
  fix e
  assume "rl key = Some e \<and> now \<le> resetTime e"
  with assms show "checkRateLimit key maxAttempts windowMs now rl =
          (count e + 1 \<le> maxAttempts, rl(key \<mapsto> e\<lparr>count := count e + 1\<rparr>))"
    by (simp add: checkRateLimit_keep)
next
  fix t1 t2 t3 t4 t5 t6 t7 :: int
  assume h: "rl key = None \<and> t2 \<le> t1 + 60000 \<and> t3 \<le> t1 + 60000 \<and> t4 \<le> t1 + 60000 \<and>
        t5 \<le> t1 + 60000 \<and> t6 \<le> t1 + 60000 \<and> t1 + 60000 < t7"
  show "fst (checkRateLimitAt key 5 60000 [t1, t2, t3, t4, t5, t6, t7] rl) =
          [True, True, True, True, True, False, True]"
    by (rule checkRateLimit_scenario) (use assms h in simp_all)
qed

theorem checkRateLimit_fixed_window_witness:
  "checkRateLimit ''login_a@b.co'' 5 60000 1000 Map.empty =
     (True, [''login_a@b.co'' \<mapsto> \<lparr>count = 1, resetTime = 61000\<rparr>]) \<and>
   checkRateLimit ''login_a@b.co'' 5 60000 61001
       [''login_a@b.co'' \<mapsto> \<lparr>count = 6, resetTime = 61000\<rparr>] =
     (True, [''login_a@b.co'' \<mapsto> \<lparr>count = 1, resetTime = 121001\<rparr>]) \<and>
   checkRateLimit ''login_a@b.co'' 5 60000 2000
       [''login_a@b.co'' \<mapsto> \<lparr>count = 5, resetTime = 61000\<rparr>] =
     (False, [''login_a@b.co'' \<mapsto> \<lparr>count = 6, resetTime = 61000\<rparr>]) \<and>
   fst (checkRateLimitAt ''login_a@b.co'' 5 60000
          [1000, 2000, 3000, 4000, 5000, 61000, 61001] Map.empty) =
     [True, True, True, True, True, False, True]"
proof -
  have k: "''login_a@b.co'' \<notin> set objectPrototypeKeys"
    by (simp add: objectPrototypeKeys_def)
  have 1: "checkRateLimit ''login_a@b.co'' 5 60000 1000 Map.empty =
     (True, [''login_a@b.co'' \<mapsto> \<lparr>count = 1, resetTime = 61000\<rparr>])"
    using checkRateLimit_fixed_window [OF k, of Map.empty 1000 5 60000] by simp
  have 2: "checkRateLimit ''login_a@b.co'' 5 60000 61001
       [''login_a@b.co'' \<mapsto> \<lparr>count = 6, resetTime = 61000\<rparr>] =
     (True, [''login_a@b.co'' \<mapsto> \<lparr>count = 1, resetTime = 121001\<rparr>])"
    using checkRateLimit_fixed_window
      [OF k, of "[''login_a@b.co'' \<mapsto> \<lparr>count = 6, resetTime = 61000\<rparr>]" 61001 5 60000]
    by simp
  have 3: "checkRateLimit ''login_a@b.co'' 5 60000 2000
       [''login_a@b.co'' \<mapsto> \<lparr>count = 5, resetTime = 61000\<rparr>] =
     (False, [''login_a@b.co'' \<mapsto> \<lparr>count = 6, resetTime = 61000\<rparr>])"
    using checkRateLimit_fixed_window
      [OF k, of "[''login_a@b.co'' \<mapsto> \<lparr>count = 5, resetTime = 61000\<rparr>]" 2000 5 60000]
    by simp
  have 4: "fst (checkRateLimitAt ''login_a@b.co'' 5 60000
          [1000, 2000, 3000, 4000, 5000, 61000, 61001] Map.empty) =
     [True, True, True, True, True, False, True]"
    by (rule checkRateLimit_fixed_window
          [OF k, of Map.empty, THEN conjunct2, THEN conjunct2, rule_format]) simp
  show ?thesis using 1 2 3 4 by simp
qed

text \<open>
  The claim as the spec words it resets the entry whenever \<open>now >= windowEnd\<close>. At
  \<open>now = resetTime\<close> the code keeps it: a sixth call at the very end of the window is
  counted in the old window and refused, where the spec's wording would start a new
  window and admit it.
\<close>

theorem checkRateLimit_boundary_counterexample:
  "checkRateLimit ''login_a@b.co'' 5 60000 61000
       [''login_a@b.co'' \<mapsto> \<lparr>count = 5, resetTime = 61000\<rparr>] =
     (False, [''login_a@b.co'' \<mapsto> \<lparr>count = 6, resetTime = 61000\<rparr>])"
  by (simp add: checkRateLimit_def objectPrototypeKeys_def)

subsection \<open>CSRF tokens\<close>











subsection \<open>The services\<close>

lemma respond_calls: "calls (snd (respond c w)) = calls w @ [c]"
  by (simp add: respond_def split: list.splits)

lemma respond_polls: "polls (snd (respond c w)) = polls w"
  by (simp add: respond_def split: list.splits)

lemma respond_votes: "votes (snd (respond c w)) = votes w"
  by (simp add: respond_def split: list.splits)



lemma selectVotes_votes: "votes (snd (selectVotes pollId uid w)) = votes w"
  by (simp add: selectVotes_def Let_def case_prod_unfold respond_votes split: option.split)

lemma selectVotes_rows:
  "fst (fst (selectVotes pollId uid w)) = Some rows \<Longrightarrow>
   rows = filter (\<lambda>v. v_poll_id v = pollId \<and> v_user_id v = uid) (votes w)"
  by (simp add: selectVotes_def Let_def case_prod_unfold respond_votes split: option.splits)

lemma insertVote_votes:
  "votes (snd (insertVote pollId uid optionIndex w)) =
     (if fst (insertVote pollId uid optionIndex w) = None
      then votes w @ [\<lparr>v_poll_id = pollId, v_user_id = uid, v_option_index = optionIndex\<rparr>]
      else votes w)"
  by (simp add: insertVote_def Let_def case_prod_unfold respond_votes split: option.split)

lemma updatePollByIdAndUser_frame:
  "length (polls (snd (updatePollByIdAndUser pollId uid question options w))) = length (polls w) \<and>
   (\<forall>i < length (polls w). p_user_id (polls w ! i) \<noteq> uid \<longrightarrow>
      polls (snd (updatePollByIdAndUser pollId uid question options w)) ! i = polls w ! i)"
  by (simp add: updatePollByIdAndUser_def Let_def case_prod_unfold respond_polls
      split: option.split)

subsection \<open>Votes\<close>

text \<open>\<open>submitVote\<close> leaves the votes as they are or appends one for a pair that had none.\<close>

lemma submitVote_votes:
  "votes (snd (submitVote pollId optionIndex w)) = votes w \<or>
   (\<exists>uid. filter (\<lambda>v. v_poll_id v = pollId \<and> v_user_id v = uid) (votes w) = [] \<and>
      votes (snd (submitVote pollId optionIndex w)) =
        votes w @ [\<lparr>v_poll_id = pollId, v_user_id = uid, v_option_index = optionIndex\<rparr>])"
proof (cases "authUser w")
  case None
  then show ?thesis
    by (simp add: submitVote_def getUser_def)
next
  case (Some uid)
  note user = this
  let ?w1 = "w\<lparr>calls := calls w @ [GetUser]\<rparr>"
  let ?sel = "selectVotes pollId uid ?w1"
  show ?thesis
  proof (cases "snd (fst ?sel)")
    case (Some msg)
    with user show ?thesis
      by (simp add: submitVote_def getUser_def case_prod_unfold selectVotes_votes)
  next
    case None
    note noerr = this
    show ?thesis
    proof (cases "fst (fst ?sel)")
      case None
      with noerr user show ?thesis
        by (simp add: submitVote_def getUser_def Let_def case_prod_unfold selectVotes_votes
            insertVote_votes selectVotes_def split: option.splits)
    next
      case (Some rows)
      then have rows: "rows = filter (\<lambda>v. v_poll_id v = pollId \<and> v_user_id v = uid) (votes w)"
        using selectVotes_rows [of pollId uid ?w1 rows] by simp
      show ?thesis
      proof (cases "rows = []")
        case True
        with rows noerr Some user show ?thesis
          by (auto simp add: submitVote_def getUser_def Let_def case_prod_unfold
              selectVotes_votes insertVote_votes split: option.splits)
      next
        case False
        with rows noerr Some user show ?thesis
          by (simp add: submitVote_def getUser_def Let_def case_prod_unfold selectVotes_votes)
      qed
    qed
  qed
qed

text \<open>
  A \<open>submitVote\<close> whose calls no other request comes between keeps the votes one for
  each pair of a poll and a user.
\<close>

lemma submitVote_oneVotePerUser:
  assumes "oneVotePerUser w"
  shows "oneVotePerUser (snd (submitVote pollId optionIndex w))"
proof -
  from submitVote_votes [of pollId optionIndex w] show ?thesis
  proof
    assume "votes (snd (submitVote pollId optionIndex w)) = votes w"
    with assms show ?thesis by (simp add: oneVotePerUser_def)
  next
    assume "\<exists>uid.
      filter (\<lambda>v. v_poll_id v = pollId \<and> v_user_id v = uid) (votes w) = [] \<and>
      votes (snd (submitVote pollId optionIndex w)) =
        votes w @ [\<lparr>v_poll_id = pollId, v_user_id = uid, v_option_index = optionIndex\<rparr>]"
    then obtain uid where
      none: "filter (\<lambda>v. v_poll_id v = pollId \<and> v_user_id v = uid) (votes w) = []"
      and new: "votes (snd (submitVote pollId optionIndex w)) =
        votes w @ [\<lparr>v_poll_id = pollId, v_user_id = uid, v_option_index = optionIndex\<rparr>]"
      by blast
    from none have "(pollId, uid) \<notin> (\<lambda>v. (v_poll_id v, v_user_id v)) ` set (votes w)"
      by (auto simp: filter_empty_conv)
    with assms new show ?thesis by (simp add: oneVotePerUser_def)
  qed
qed

lemma submitVote_duplicate:
  assumes "authUser w = Some uid"
    and "v \<in> set (votes w)" "v_poll_id v = pollId" "v_user_id v = uid"
  shows "votes (snd (submitVote pollId optionIndex w)) = votes w \<and>
         calls (snd (submitVote pollId optionIndex w)) =
           calls w @ [GetUser, SelectVotes pollId uid] \<and>
         (answers 1 w \<longrightarrow>
            fst (submitVote pollId optionIndex w) = Some ''You have already voted on this poll'')"
proof -
  have "filter (\<lambda>v. v_poll_id v = pollId \<and> v_user_id v = uid) (votes w) \<noteq> []"
    using assms by (auto simp: filter_empty_conv)
  then show ?thesis using assms(1)
    by (simp add: submitVote_def getUser_def selectVotes_def respond_def answers_def
        split: list.split option.split)
qed

subsection \<open>Ownership and votes\<close>

text \<open>
  Claim C3. For every authenticated caller (\<open>getUser\<close> gives a user and no error) whose
  id differs from the \<open>user_id\<close> stored for the target poll: \<open>deletePoll\<close> issues the
  \<open>getUser\<close> call and the ownership lookup and no other call, so no delete, and the polls
  are unchanged; and when the data service answers the lookup, the result is
  \<open>{error: "You can only delete your own polls"}\<close>.
\<close>

theorem deletePoll_not_owner_rejected:
  assumes "authError w = None" and "authUser w = Some uid"
    and "filter (\<lambda>p. p_id p = pollId) (polls w) = [p]"
    and "p_user_id p \<noteq> uid"
  shows "polls (snd (deletePoll pollId w)) = polls w \<and>
         calls (snd (deletePoll pollId w)) = calls w @ [GetUser, SelectPollOwner pollId] \<and>
         (answers 1 w \<longrightarrow>
            fst (deletePoll pollId w) = Some ''You can only delete your own polls'')"
proof (intro conjI impI)
  show "polls (snd (deletePoll pollId w)) = polls w"
    using assms
    by (auto simp: deletePoll_def getUser_def selectPollOwner_def respond_def
        split: list.splits option.splits)
next
  show "calls (snd (deletePoll pollId w)) = calls w @ [GetUser, SelectPollOwner pollId]"
    using assms
    by (auto simp: deletePoll_def getUser_def selectPollOwner_def respond_def
        split: list.splits option.splits)
next
  assume "answers 1 w"
  with assms show "fst (deletePoll pollId w) = Some ''You can only delete your own polls''"
    by (auto simp: deletePoll_def getUser_def selectPollOwner_def respond_def answers_def
        split: list.splits option.splits)
qed

theorem deletePoll_not_owner_rejected_witness:
  "polls (snd (deletePoll ''p1'' world0)) = [poll0] \<and>
   calls (snd (deletePoll ''p1'' world0)) = [GetUser, SelectPollOwner ''p1''] \<and>
   fst (deletePoll ''p1'' world0) = Some ''You can only delete your own polls''"
proof -
  have 1: "authError world0 = None" and 2: "authUser world0 = Some ''alice''"
    and 3: "filter (\<lambda>p. p_id p = ''p1'') (polls world0) = [poll0]"
    and 4: "p_user_id poll0 \<noteq> ''alice''"
    and 5: "answers 1 world0"
    by (simp_all add: world0_def poll0_def answers_def)
  from deletePoll_not_owner_rejected [OF 1 2 3 4] 5 show ?thesis
    by (simp add: world0_def)
qed

text \<open>
  The steps of \<open>submitVote\<close>, taken one after the other with nothing in between, are
  \<open>submitVote\<close>.
\<close>

lemma submitVoteStep_run:
  "runSchedule [0, 0, 0]
     [\<lparr>vr_pollId = pollId, vr_optionIndex = optionIndex, vr_state = BeforeGetUser\<rparr>] w =
   ([\<lparr>vr_pollId = pollId, vr_optionIndex = optionIndex,
      vr_state = Returned (fst (submitVote pollId optionIndex w))\<rparr>],
    snd (submitVote pollId optionIndex w))"
  by (simp add: stepRequest_def submitVote_def Let_def case_prod_unfold split: option.split)

text \<open>
  Two requests of Alice for the poll \<open>p1\<close>, on which she has no vote yet, one for option
  0 and one for option 1. Served one after the other, the second is refused.
\<close>

lemma submitVote_one_after_the_other:
  "map vr_state
     (fst (runSchedule [0, 0, 0, Suc 0, Suc 0, Suc 0]
        [\<lparr>vr_pollId = ''p1'', vr_optionIndex = 0, vr_state = BeforeGetUser\<rparr>,
         \<lparr>vr_pollId = ''p1'', vr_optionIndex = 1, vr_state = BeforeGetUser\<rparr>]
        (world0\<lparr>votes := []\<rparr>))) =
     [Returned None, Returned (Some ''You have already voted on this poll'')] \<and>
   votes
     (snd (runSchedule [0, 0, 0, Suc 0, Suc 0, Suc 0]
        [\<lparr>vr_pollId = ''p1'', vr_optionIndex = 0, vr_state = BeforeGetUser\<rparr>,
         \<lparr>vr_pollId = ''p1'', vr_optionIndex = 1, vr_state = BeforeGetUser\<rparr>]
        (world0\<lparr>votes := []\<rparr>))) =
     [\<lparr>v_poll_id = ''p1'', v_user_id = ''alice'', v_option_index = 0\<rparr>]"
  by (simp add: stepRequest_def world0_def getUser_def selectVotes_def insertVote_def
      respond_def)

text \<open>
  Claim C4 says that every operation keeps at most one vote for each pair of a poll and
  a user, \<open>submitVote\<close> refusing the caller who has one. The refusal holds (lemma
  \<open>submitVote_duplicate\<close>), and a \<open>submitVote\<close> served alone keeps the invariant (lemma
  \<open>submitVote_oneVotePerUser\<close>). But \<open>submitVote\<close> awaits between its lookup and its
  insert: when the two requests of Alice are served in turns, both lookups find no vote,
  both inserts are issued, both requests return \<open>{error: null}\<close>, and two votes of Alice
  on \<open>p1\<close> are stored. The invariant held before and does not hold after.
\<close>

theorem submitVote_interleaved_stores_two_votes:
  "oneVotePerUser (world0\<lparr>votes := []\<rparr>) \<and>
   map vr_state
     (fst (runSchedule [0, Suc 0, 0, Suc 0, 0, Suc 0]
        [\<lparr>vr_pollId = ''p1'', vr_optionIndex = 0, vr_state = BeforeGetUser\<rparr>,
         \<lparr>vr_pollId = ''p1'', vr_optionIndex = 1, vr_state = BeforeGetUser\<rparr>]
        (world0\<lparr>votes := []\<rparr>))) =
     [Returned None, Returned None] \<and>
   votes
     (snd (runSchedule [0, Suc 0, 0, Suc 0, 0, Suc 0]
        [\<lparr>vr_pollId = ''p1'', vr_optionIndex = 0, vr_state = BeforeGetUser\<rparr>,
         \<lparr>vr_pollId = ''p1'', vr_optionIndex = 1, vr_state = BeforeGetUser\<rparr>]
        (world0\<lparr>votes := []\<rparr>))) =
     [\<lparr>v_poll_id = ''p1'', v_user_id = ''alice'', v_option_index = 0\<rparr>,
      \<lparr>v_poll_id = ''p1'', v_user_id = ''alice'', v_option_index = 1\<rparr>] \<and>
   \<not> oneVotePerUser
     (snd (runSchedule [0, Suc 0, 0, Suc 0, 0, Suc 0]
        [\<lparr>vr_pollId = ''p1'', vr_optionIndex = 0, vr_state = BeforeGetUser\<rparr>,
         \<lparr>vr_pollId = ''p1'', vr_optionIndex = 1, vr_state = BeforeGetUser\<rparr>]
        (world0\<lparr>votes := []\<rparr>)))"
  by (simp add: oneVotePerUser_def stepRequest_def world0_def getUser_def selectVotes_def
      insertVote_def respond_def)

text \<open>
  Claim C10. For every caller \<open>getUser\<close> gives a user for, with no vote on the poll yet,
  and every integer \<open>optionIndex\<close>, negative or beyond the poll's options or not:
  when the data service answers the lookup, \<open>submitVote\<close> issues the insert with that
  \<open>optionIndex\<close>, and when it also accepts the insert, the vote is stored with that
  \<open>optionIndex\<close> and the result is \<open>{error: null}\<close>. The poll and its options are never
  read.
\<close>

theorem submitVote_any_optionIndex:
  assumes "authUser w = Some uid"
    and "filter (\<lambda>v. v_poll_id v = pollId \<and> v_user_id v = uid) (votes w) = []"
  shows "(answers 1 w \<longrightarrow>
            calls (snd (submitVote pollId optionIndex w)) =
              calls w @ [GetUser, SelectVotes pollId uid, InsertVote pollId uid optionIndex]) \<and>
         (answers 2 w \<longrightarrow>
            fst (submitVote pollId optionIndex w) = None \<and>
            votes (snd (submitVote pollId optionIndex w)) =
              votes w @
              [\<lparr>v_poll_id = pollId, v_user_id = uid, v_option_index = optionIndex\<rparr>])"
proof (intro conjI impI)
  assume "answers 1 w"
  with assms show "calls (snd (submitVote pollId optionIndex w)) =
      calls w @ [GetUser, SelectVotes pollId uid, InsertVote pollId uid optionIndex]"
    by (auto simp add: submitVote_def getUser_def selectVotes_def insertVote_def respond_def
        answers_def split: list.split option.split)
next
  assume "answers 2 w"
  with assms show "fst (submitVote pollId optionIndex w) = None"
    and "votes (snd (submitVote pollId optionIndex w)) =
      votes w @ [\<lparr>v_poll_id = pollId, v_user_id = uid, v_option_index = optionIndex\<rparr>]"
    by (auto simp add: submitVote_def getUser_def selectVotes_def insertVote_def respond_def
        answers_def split: list.split option.split)
qed

theorem submitVote_any_optionIndex_witness:
  "p_options poll0 = [''tea'', ''coffee''] \<and>
   fst (submitVote ''p1'' (- 7) (world0\<lparr>votes := []\<rparr>)) = None \<and>
   votes (snd (submitVote ''p1'' (- 7) (world0\<lparr>votes := []\<rparr>))) =
     [\<lparr>v_poll_id = ''p1'', v_user_id = ''alice'', v_option_index = - 7\<rparr>] \<and>
   calls (snd (submitVote ''p1'' (- 7) (world0\<lparr>votes := []\<rparr>))) =
     [GetUser, SelectVotes ''p1'' ''alice'', InsertVote ''p1'' ''alice'' (- 7)] \<and>
   fst (submitVote ''p1'' 99 (world0\<lparr>votes := []\<rparr>)) = None \<and>
   votes (snd (submitVote ''p1'' 99 (world0\<lparr>votes := []\<rparr>))) =
     [\<lparr>v_poll_id = ''p1'', v_user_id = ''alice'', v_option_index = 99\<rparr>]"
proof -
  let ?w = "world0\<lparr>votes := []\<rparr>"
  have 1: "authUser ?w = Some ''alice''"
    and 2: "filter (\<lambda>v. v_poll_id v = ''p1'' \<and> v_user_id v = ''alice'') (votes ?w) = []"
    and 3: "answers 1 ?w" and 4: "answers 2 ?w"
    by (simp_all add: world0_def answers_def)
  have 5: "p_options poll0 = [''tea'', ''coffee'']" by (simp add: poll0_def)
  from submitVote_any_optionIndex [OF 1 2, of "- 7"] submitVote_any_optionIndex [OF 1 2, of 99]
    3 4 5
  show ?thesis by (simp add: world0_def)
qed

lemma updatePoll_frame:
  "length (polls (snd (updatePoll pollId formData w))) = length (polls w) \<and>
   (\<forall>i < length (polls w). Some (p_user_id (polls w ! i)) \<noteq> authUser w \<longrightarrow>
      polls (snd (updatePoll pollId formData w)) ! i = polls w ! i)"
  by (simp add: updatePoll_def Let_def case_prod_unfold getUser_def updatePollByIdAndUser_frame
      split: option.split)

lemma updatePoll_calls:
  "calls (snd (updatePoll pollId formData w)) = calls w @ [GetUser] \<or>
   (\<exists>uid question options. authUser w = Some uid \<and>
      calls (snd (updatePoll pollId formData w)) =
        calls w @ [GetUser, UpdatePollByIdAndUser pollId uid question options])"
  by (simp add: updatePoll_def Let_def case_prod_unfold getUser_def updatePollByIdAndUser_def
      respond_calls split: option.split)

text \<open>
  Claim C8. For every \<open>updatePoll\<close> call: the only update it can issue is the one filtered
  by the target poll id and by the caller's user id; the polls stay as many, and every
  poll whose \<open>user_id\<close> is not the caller's id is unchanged (its question and options
  with it), whatever poll id the caller names.
\<close>

theorem updatePoll_scoped_by_owner:
  "(calls (snd (updatePoll pollId formData w)) = calls w @ [GetUser] \<or>
    (\<exists>uid question options. authUser w = Some uid \<and>
       calls (snd (updatePoll pollId formData w)) =
         calls w @ [GetUser, UpdatePollByIdAndUser pollId uid question options])) \<and>
   length (polls (snd (updatePoll pollId formData w))) = length (polls w) \<and>
   (\<forall>i < length (polls w). Some (p_user_id (polls w ! i)) \<noteq> authUser w \<longrightarrow>
      polls (snd (updatePoll pollId formData w)) ! i = polls w ! i)"
  using updatePoll_calls [of pollId formData w] updatePoll_frame [of pollId formData w]
  by blast

theorem updatePoll_scoped_by_owner_witness:
  "p_user_id poll0 = ''bob'' \<and> authUser world0 = Some ''alice'' \<and>
   fst (updatePoll ''p1'' pollForm0 world0) = None \<and>
   calls (snd (updatePoll ''p1'' pollForm0 world0)) =
     [GetUser, UpdatePollByIdAndUser ''p1'' ''alice'' ''Tea?'' [''yes'', ''no'']] \<and>
   polls (snd (updatePoll ''p1'' pollForm0 world0)) = [poll0]"
proof -
  have 1: "p_user_id poll0 = ''bob''" "authUser world0 = Some ''alice''"
    "polls world0 = [poll0]"
    by (simp_all add: world0_def poll0_def)
  have 2: "fst (updatePoll ''p1'' pollForm0 world0) = None \<and>
     calls (snd (updatePoll ''p1'' pollForm0 world0)) =
       [GetUser, UpdatePollByIdAndUser ''p1'' ''alice'' ''Tea?'' [''yes'', ''no'']]"
    by (simp add: updatePoll_def pollForm0_def world0_def poll0_def fd_getAll_def fd_get_def
        Let_def getUser_def checkRateLimit_def objectPrototypeKeys_def sanitizeInput_def
        replace_g_def updatePollByIdAndUser_def respond_def)
  from updatePoll_scoped_by_owner [of "''p1''" pollForm0 world0]
  have len: "length (polls (snd (updatePoll ''p1'' pollForm0 world0))) = length (polls world0)"
    and same: "\<forall>i < length (polls world0). Some (p_user_id (polls world0 ! i)) \<noteq> authUser world0 \<longrightarrow>
      polls (snd (updatePoll ''p1'' pollForm0 world0)) ! i = polls world0 ! i"
    by blast+
  from same 1 have "polls (snd (updatePoll ''p1'' pollForm0 world0)) ! 0 = poll0" by simp
  with len 1 have 3: "polls (snd (updatePoll ''p1'' pollForm0 world0)) = [poll0]"
    by (cases "polls (snd (updatePoll ''p1'' pollForm0 world0))") simp_all
  from 1 2 3 show ?thesis by simp
qed

subsection \<open>Login and registration\<close>










text \<open>
  Claim C7 says that every documented action returns \<open>{error: ...}\<close> on every input,
  form data with missing fields included, and never throws. \<open>login\<close> on a form without
  an \<open>email\<close> field (and without a CSRF token, or with a valid one) throws: the key of the
  rate limit is built from \<open>data.email.toLowerCase()\<close> before \<open>validateEmail\<close> gets to
  answer for the missing field. \<open>register\<close>, whose key is a constant, returns
  \<open>{error: "Invalid email format"}\<close> on the same form.
\<close>

theorem login_missing_email_throws:
  "login (FromFormData [(''password'', ''Secret-123'')]) w = (Inl TypeError, w)"
  by (simp add: login_def fd_has_def fd_get_def)

lemma register_missing_email_returns:
  "fst (register (FromFormData [(''password'', ''Secret-123'')]) world0) =
     Inr (Some ''Invalid email format'')"
  by (simp add: register_def fd_has_def fd_get_def Let_def world0_def checkRateLimit_def
      objectPrototypeKeys_def validateEmail_def sanitizeInput_def)

subsection \<open>Session gate\<close>

lemma config_matcher_not_auth:
  assumes "config_matcher path"
  shows "\<not> startsWith path ''/login'' \<and> \<not> startsWith path ''/register'' \<and>
         \<not> startsWith path ''/auth''"
proof (cases path)
  case Nil
  with assms show ?thesis by (simp add: config_matcher_def)
next
  case (Cons c rest)
  with assms have "c = CHR ''/''" and "\<not> matcherLookahead rest"
    by (simp_all add: config_matcher_def)
  then show ?thesis using Cons
    by (simp add: matcherLookahead_def startsWith_def)
qed

lemma updateSession_unconfigured:
  assumes "isFalsy (env ''NEXT_PUBLIC_SUPABASE_URL'') \<or>
           isFalsy (env ''NEXT_PUBLIC_SUPABASE_ANON_KEY'')"
  shows "updateSession env answer request = NextResponse_next request []"
  using assms by (auto simp: updateSession_def)

lemma sessionGate_redirect:
  assumes conf: "\<not> isFalsy (env ''NEXT_PUBLIC_SUPABASE_URL'')"
                "\<not> isFalsy (env ''NEXT_PUBLIC_SUPABASE_ANON_KEY'')"
    and nosess: "session answer = None"
    and prot: "config_matcher (pathname (nextUrl request))" "pathname (nextUrl request) \<noteq> ''/''"
  shows "sessionGate env answer request =
           NextResponse_redirect
             ((nextUrl request)\<lparr>pathname := ''/login'',
                searchParams := searchParams_set ''redirectTo'' (pathname (nextUrl request))
                                  (searchParams (nextUrl request))\<rparr>)"
  using assms config_matcher_not_auth [OF prot(1)]
  by (simp add: sessionGate_def middleware_def updateSession_def Let_def)

lemma sessionGate_root:
  assumes "pathname (nextUrl request) = ''/''"
  shows "\<exists>request' cookies. sessionGate env answer request = NextResponse_next request' cookies"
  using assms
  by (simp add: sessionGate_def middleware_def updateSession_def Let_def)

lemma sessionGate_unconfigured:
  assumes "isFalsy (env ''NEXT_PUBLIC_SUPABASE_URL'') \<or>
           isFalsy (env ''NEXT_PUBLIC_SUPABASE_ANON_KEY'')"
  shows "sessionGate env answer request = NextResponse_next request []"
  using assms by (simp add: sessionGate_def middleware_def updateSession_unconfigured)

text \<open>
  Claim C5, as the code has it. When both environment variables of the identity service
  are set: for every request with no session whose path is protected (the matcher of
  \<open>config\<close> applies to it, so it is none of the static assets, image-optimizer paths,
  login, register and auth pages and public API paths, and it is not the root path), the
  gate answers a redirect to \<open>/login\<close> whose \<open>redirectTo\<close> parameter is the requested
  path. When one of the two variables is missing, the gate passes every request on. A
  request for the root path is passed on in every case, with or without a session.
\<close>

theorem sessionGate_redirects_when_configured:
  "(\<not> isFalsy (env ''NEXT_PUBLIC_SUPABASE_URL'') \<and>
    \<not> isFalsy (env ''NEXT_PUBLIC_SUPABASE_ANON_KEY'') \<and>
    session answer = None \<and>
    config_matcher (pathname (nextUrl request)) \<and> pathname (nextUrl request) \<noteq> ''/'' \<longrightarrow>
      sessionGate env answer request =
        NextResponse_redirect
          ((nextUrl request)\<lparr>pathname := ''/login'',
             searchParams := searchParams_set ''redirectTo'' (pathname (nextUrl request))
                               (searchParams (nextUrl request))\<rparr>)) \<and>
   (isFalsy (env ''NEXT_PUBLIC_SUPABASE_URL'') \<or>
    isFalsy (env ''NEXT_PUBLIC_SUPABASE_ANON_KEY'') \<longrightarrow>
      sessionGate env answer request = NextResponse_next request []) \<and>
   (pathname (nextUrl request) = ''/'' \<longrightarrow>
      (\<exists>request' cookies. sessionGate env answer request = NextResponse_next request' cookies))"
  using sessionGate_redirect [of env answer request] sessionGate_unconfigured [of env answer request]
    sessionGate_root [of request env answer]
  by blast

theorem sessionGate_redirects_when_configured_witness:
  "config_matcher ''/polls/123'' \<and>
   sessionGate env0 answer0 request0 =
     NextResponse_redirect
       \<lparr>pathname = ''/login'', searchParams = [(''redirectTo'', ''/polls/123'')]\<rparr> \<and>
   sessionGate envUnset answer0 request0 = NextResponse_next request0 [] \<and>
   sessionGate env0 answer0 (request0\<lparr>nextUrl := \<lparr>pathname = ''/'', searchParams = []\<rparr>\<rparr>) =
     NextResponse_next (request0\<lparr>nextUrl := \<lparr>pathname = ''/'', searchParams = []\<rparr>\<rparr>) []"
proof -
  have m: "config_matcher ''/polls/123''"
    by (simp add: config_matcher_def matcherLookahead_def startsWith_def endsWith_def
        lineTerminator_def)
  have pre: "\<not> isFalsy (env0 ''NEXT_PUBLIC_SUPABASE_URL'') \<and>
    \<not> isFalsy (env0 ''NEXT_PUBLIC_SUPABASE_ANON_KEY'') \<and>
    session answer0 = None \<and>
    config_matcher (pathname (nextUrl request0)) \<and> pathname (nextUrl request0) \<noteq> ''/''"
    using m by (simp add: env0_def isFalsy_def answer0_def request0_def)
  have un: "isFalsy (envUnset ''NEXT_PUBLIC_SUPABASE_URL'') \<or>
    isFalsy (envUnset ''NEXT_PUBLIC_SUPABASE_ANON_KEY'')"
    by (simp add: envUnset_def isFalsy_def)
  from sessionGate_redirects_when_configured [of env0 answer0 request0] pre
  have 1: "sessionGate env0 answer0 request0 =
        NextResponse_redirect
          ((nextUrl request0)\<lparr>pathname := ''/login'',
             searchParams := searchParams_set ''redirectTo'' (pathname (nextUrl request0))
                               (searchParams (nextUrl request0))\<rparr>)"
    by blast
  from sessionGate_redirects_when_configured [of envUnset answer0 request0] un
  have 2: "sessionGate envUnset answer0 request0 = NextResponse_next request0 []"
    by blast
  have 3: "sessionGate env0 answer0
             (request0\<lparr>nextUrl := \<lparr>pathname = ''/'', searchParams = []\<rparr>\<rparr>) =
     NextResponse_next (request0\<lparr>nextUrl := \<lparr>pathname = ''/'', searchParams = []\<rparr>\<rparr>) []"
    by (simp add: sessionGate_def middleware_def updateSession_def Let_def env0_def isFalsy_def
        answer0_def request0_def config_matcher_def matcherLookahead_def startsWith_def)
  from m 1 2 3 show ?thesis
    by (simp add: request0_def searchParams_set_def)
qed

text \<open>
  The claim as the spec words it has every request with no session for a protected path
  redirected. With the environment variables of the identity service unset, the
  anonymous request for \<open>/polls/123\<close>, a protected path, is passed on.
\<close>

theorem sessionGate_unconfigured_counterexample:
  "session answer0 = None \<and> config_matcher (pathname (nextUrl request0)) \<and>
   pathname (nextUrl request0) \<noteq> ''/'' \<and>
   sessionGate envUnset answer0 request0 = NextResponse_next request0 []"
  by (simp add: sessionGate_def middleware_def updateSession_def envUnset_def isFalsy_def
      answer0_def request0_def config_matcher_def matcherLookahead_def startsWith_def
      endsWith_def lineTerminator_def)


end
